theory Spec2Isabelle
  imports Main "HOL-Library.Word"
begin

section \<open>The rotating log writer of zaphelper (writer.go)\<close>

text \<open>
  \<^verbatim>\<open>Writer\<close> is an \<^verbatim>\<open>io.WriteCloser\<close> over one log file. It opens the file lazily on
  the first \<^verbatim>\<open>Write\<close>, closes it on \<^verbatim>\<open>Close\<close>, and closes and reopens it on
  \<^verbatim>\<open>Rotate\<close>. Everything the writer does to the outside world goes through five calls of
  the Go standard library: \<^verbatim>\<open>osStat\<close> (a package variable holding \<^verbatim>\<open>os.Stat\<close>),
  \<^verbatim>\<open>os.MkdirAll\<close>, \<^verbatim>\<open>os.OpenFile\<close>, \<^verbatim>\<open>(*os.File).Close\<close> and
  \<^verbatim>\<open>(*os.File).Write\<close>. The embedding keeps the operating system abstract: it is a record
  of five functions over a world of any type, each of which may fail, and the writer's
  functions thread the world and a trace of the calls they made.

  The mutex \<^verbatim>\<open>mu\<close> is held by each public operation from entry to return, so the
  operations of one writer are serialised; the embedding is the sequential semantics of one
  operation at a time and does not model the lock.
\<close>

subsection \<open>Errors\<close>

datatype errno = ENOENT | EACCES | EEXIST | ENOTDIR | EBADF | EIO | ENOSPC | EINVAL

text \<open>
  A Go \<^verbatim>\<open>error\<close> value that is not nil: an error of the operating system, or
  \<^verbatim>\<open>errors.Wrap(err, msg)\<close> of github.com/pkg/errors. The nil error is \<open>None\<close> of
  \<open>go_error option\<close>.
\<close>

datatype go_error = SysErr errno | Wrap go_error string

text \<open>
  \<^verbatim>\<open>os.IsNotExist\<close>: true for the not-exist error of the operating system; false for nil
  and for every other error (it does not look through a pkg/errors wrapper).
\<close>

fun IsNotExist :: "go_error option \<Rightarrow> bool" where
  "IsNotExist (Some (SysErr ENOENT)) = True"
| "IsNotExist _ = False"

subsection \<open>The operating system interface\<close>

type_synonym byte = "8 word"

text \<open>The identity of an open \<^verbatim>\<open>*os.File\<close>.\<close>

type_synonym fd = nat

text \<open>The flags of \<^verbatim>\<open>os.OpenFile\<close>; the bit mask \<^verbatim>\<open>a|b|c\<close> is the set of its flags.\<close>

datatype oflag = O_WRONLY | O_APPEND | O_CREATE | O_TRUNC | O_EXCL

text \<open>
  One call of the writer into the operating system, with its arguments and what the call
  returned. \<^verbatim>\<open>os.Stat\<close> also returns a \<^verbatim>\<open>FileInfo\<close>, which the writer discards.
\<close>

datatype call =
    CallStat string "go_error option"
  | CallMkdirAll string nat "go_error option"
  | CallOpenFile string "oflag set" nat "go_error + fd"
  | CallClose fd "go_error option"
  | CallWrite fd "byte list" int "go_error option"

record 'w os_impl =
  os_Stat :: "string \<Rightarrow> 'w \<Rightarrow> go_error option \<times> 'w"
  os_MkdirAll :: "string \<Rightarrow> nat \<Rightarrow> 'w \<Rightarrow> go_error option \<times> 'w"
  os_OpenFile :: "string \<Rightarrow> oflag set \<Rightarrow> nat \<Rightarrow> 'w \<Rightarrow> (go_error + fd) \<times> 'w"
  file_Close :: "fd \<Rightarrow> 'w \<Rightarrow> go_error option \<times> 'w"
  file_Write :: "fd \<Rightarrow> byte list \<Rightarrow> 'w \<Rightarrow> (int \<times> go_error option) \<times> 'w"

text \<open>The world together with the calls made so far, oldest first.\<close>

record 'w sys =
  world :: 'w
  trace :: "call list"

definition osStat :: "'w os_impl \<Rightarrow> string \<Rightarrow> 'w sys \<Rightarrow> go_error option \<times> 'w sys" where
  "osStat K name s =
     (case os_Stat K name (world s) of
        (r, x) \<Rightarrow> (r, \<lparr>world = x, trace = trace s @ [CallStat name r]\<rparr>))"

definition osMkdirAll :: "'w os_impl \<Rightarrow> string \<Rightarrow> nat \<Rightarrow> 'w sys \<Rightarrow> go_error option \<times> 'w sys" where
  "osMkdirAll K path perm s =
     (case os_MkdirAll K path perm (world s) of
        (r, x) \<Rightarrow> (r, \<lparr>world = x, trace = trace s @ [CallMkdirAll path perm r]\<rparr>))"

definition osOpenFile ::
  "'w os_impl \<Rightarrow> string \<Rightarrow> oflag set \<Rightarrow> nat \<Rightarrow> 'w sys \<Rightarrow> (go_error + fd) \<times> 'w sys" where
  "osOpenFile K name flag perm s =
     (case os_OpenFile K name flag perm (world s) of
        (r, x) \<Rightarrow> (r, \<lparr>world = x, trace = trace s @ [CallOpenFile name flag perm r]\<rparr>))"

definition fileClose :: "'w os_impl \<Rightarrow> fd \<Rightarrow> 'w sys \<Rightarrow> go_error option \<times> 'w sys" where
  "fileClose K f s =
     (case file_Close K f (world s) of
        (r, x) \<Rightarrow> (r, \<lparr>world = x, trace = trace s @ [CallClose f r]\<rparr>))"

definition fileWrite ::
  "'w os_impl \<Rightarrow> fd \<Rightarrow> byte list \<Rightarrow> 'w sys \<Rightarrow> (int \<times> go_error option) \<times> 'w sys" where
  "fileWrite K f p s =
     (case file_Write K f p (world s) of
        ((n, err), x) \<Rightarrow> ((n, err), \<lparr>world = x, trace = trace s @ [CallWrite f p n err]\<rparr>))"

subsection \<open>Paths (path/filepath of the Go standard library, on Unix)\<close>

text \<open>The elements of a path between its separators; \<open>cur\<close> is the element being read.\<close>

fun path_elems :: "string \<Rightarrow> string \<Rightarrow> string list" where
  "path_elems cur [] = [cur]"
| "path_elems cur (c # cs) =
     (if c = CHR ''/'' then cur # path_elems [] cs else path_elems (cur @ [c]) cs)"

text \<open>\<^verbatim>\<open>strings.Join(elems, "/")\<close>.\<close>

fun strings_Join :: "string list \<Rightarrow> string" where
  "strings_Join [] = []"
| "strings_Join [e] = e"
| "strings_Join (e # e' # es) = e @ CHR ''/'' # strings_Join (e' # es)"

text \<open>
  The loop of \<^verbatim>\<open>filepath.Clean\<close> over the elements of the path: empty elements and
  \<^verbatim>\<open>.\<close> are dropped, \<^verbatim>\<open>..\<close> removes the element before it when there is one to remove,
  is kept at the start of a path that is not rooted, and is dropped at the start of a rooted
  one.
\<close>

fun clean_elems :: "bool \<Rightarrow> string list \<Rightarrow> string list \<Rightarrow> string list" where
  "clean_elems rooted out [] = out"
| "clean_elems rooted out (e # es) =
     (if e = [] \<or> e = ''.'' then clean_elems rooted out es
      else if e = ''..'' then
        (if out \<noteq> [] \<and> last out \<noteq> ''..'' then clean_elems rooted (butlast out) es
         else if \<not> rooted then clean_elems rooted (out @ [''..'']) es
         else clean_elems rooted out es)
      else clean_elems rooted (out @ [e]) es)"

definition filepath_Clean :: "string \<Rightarrow> string" where
  "filepath_Clean path =
     (if path = [] then ''.''
      else
        let rooted = (hd path = CHR ''/'');
            out = strings_Join (clean_elems rooted [] (path_elems [] path))
        in if rooted then CHR ''/'' # out else if out = [] then ''.'' else out)"

definition filepath_Join :: "string list \<Rightarrow> string" where
  "filepath_Join elem =
     (case dropWhile (\<lambda>e. e = []) elem of
        [] \<Rightarrow> []
      | es \<Rightarrow> filepath_Clean (strings_Join es))"

definition filepath_Base :: "string \<Rightarrow> string" where
  "filepath_Base path =
     (if path = [] then ''.''
      else
        let stripped = rev (dropWhile (\<lambda>c. c = CHR ''/'') (rev path));
            last_elem = rev (takeWhile (\<lambda>c. c \<noteq> CHR ''/'') (rev stripped))
        in if last_elem = [] then ''/'' else last_elem)"

definition filepath_Dir :: "string \<Rightarrow> string" where
  "filepath_Dir path = filepath_Clean (rev (dropWhile (\<lambda>c. c \<noteq> CHR ''/'') (rev path)))"

subsection \<open>The writer\<close>

text \<open>
  What the writer reads from its process: \<^verbatim>\<open>os.Args[0]\<close> and \<^verbatim>\<open>os.TempDir()\<close>.
\<close>

record proc =
  Args0 :: string
  TempDir :: string

text \<open>
  \<^verbatim>\<open>type Writer struct { Filename string; file *os.File; mu sync.Mutex }\<close>. A nil
  \<^verbatim>\<open>file\<close> is \<open>None\<close>. The field \<^verbatim>\<open>file\<close> is written \<open>file'\<close> and the function
  \<^verbatim>\<open>rotate\<close> is written \<open>rotate'\<close>: Isabelle has the plain names in use already.
\<close>

record Writer =
  Filename :: string
  file' :: "fd option"

definition filename :: "proc \<Rightarrow> Writer \<Rightarrow> string" where
  "filename P w =
     (if Filename w \<noteq> [] then Filename w
      else
        let name = filepath_Base (Args0 P) @ ''-zap.log''
        in filepath_Join [TempDir P, name])"

definition dir :: "proc \<Rightarrow> Writer \<Rightarrow> string" where
  "dir P w = filepath_Dir (filename P w)"

text \<open>File modes \<^verbatim>\<open>0744\<close> and \<^verbatim>\<open>0644\<close> (octal).\<close>

definition mode_0744 :: nat where
  "mode_0744 = 7 * 64 + 4 * 8 + 4"

definition mode_0644 :: nat where
  "mode_0644 = 6 * 64 + 4 * 8 + 4"

text \<open>\<^verbatim>\<open>close\<close>: closes the file if it is open; the handle is dropped whatever the close returns.\<close>

definition close :: "'w os_impl \<Rightarrow> Writer \<Rightarrow> 'w sys \<Rightarrow> go_error option \<times> Writer \<times> 'w sys" where
  "close K w s =
     (case file' w of
        None \<Rightarrow> (None, w, s)
      | Some f \<Rightarrow>
          (case fileClose K f s of
             (err, s1) \<Rightarrow> (err, w\<lparr>file' := None\<rparr>, s1)))"

definition Close :: "'w os_impl \<Rightarrow> Writer \<Rightarrow> 'w sys \<Rightarrow> go_error option \<times> Writer \<times> 'w sys" where
  "Close K w s = close K w s"

text \<open>\<^verbatim>\<open>openNew\<close>: makes the directories of the log file, then opens it with
  \<^verbatim>\<open>O_CREATE|O_WRONLY|O_APPEND\<close>.\<close>

definition openNew ::
  "'w os_impl \<Rightarrow> proc \<Rightarrow> Writer \<Rightarrow> 'w sys \<Rightarrow> go_error option \<times> Writer \<times> 'w sys" where
  "openNew K P w s =
     (case osMkdirAll K (dir P w) mode_0744 s of
        (Some err, s1) \<Rightarrow> (Some (Wrap err ''can't make directories for new logfile''), w, s1)
      | (None, s1) \<Rightarrow>
          (let name = filename P w; mode = mode_0644
           in case osOpenFile K name {O_CREATE, O_WRONLY, O_APPEND} mode s1 of
                (Inl err, s2) \<Rightarrow> (Some (Wrap err ''can't open new logfile''), w, s2)
              | (Inr f, s2) \<Rightarrow> (None, w\<lparr>file' := Some f\<rparr>, s2)))"

text \<open>\<^verbatim>\<open>openExistingOrNew\<close>; its argument \<^verbatim>\<open>writeLen\<close> is not used by the source.\<close>

definition openExistingOrNew ::
  "'w os_impl \<Rightarrow> proc \<Rightarrow> Writer \<Rightarrow> int \<Rightarrow> 'w sys \<Rightarrow> go_error option \<times> Writer \<times> 'w sys" where
  "openExistingOrNew K P w writeLen s =
     (let name = filename P w
      in case osStat K name s of
           (err, s1) \<Rightarrow>
             if IsNotExist err then openNew K P w s1
             else
               (case err of
                  Some e \<Rightarrow> (Some (Wrap e ''error getting log file info''), w, s1)
                | None \<Rightarrow>
                    (case osOpenFile K name {O_APPEND, O_WRONLY} mode_0644 s1 of
                       (Inl e, s2) \<Rightarrow> openNew K P w s2
                     | (Inr f, s2) \<Rightarrow> (None, w\<lparr>file' := Some f\<rparr>, s2))))"

text \<open>
  \<^verbatim>\<open>Write\<close>. The last step is \<^verbatim>\<open>w.file.Write(p)\<close>; on a nil \<^verbatim>\<open>*os.File\<close> that method
  returns \<^verbatim>\<open>(0, os.ErrInvalid)\<close> without a call to the operating system.
\<close>

definition Write ::
  "'w os_impl \<Rightarrow> proc \<Rightarrow> Writer \<Rightarrow> byte list \<Rightarrow> 'w sys
     \<Rightarrow> (int \<times> go_error option) \<times> Writer \<times> 'w sys" where
  "Write K P w p s =
     (case (if file' w = None then openExistingOrNew K P w (int (length p)) s
            else (None, w, s)) of
        (Some err, w1, s1) \<Rightarrow> ((0, Some err), w1, s1)
      | (None, w1, s1) \<Rightarrow>
          (case file' w1 of
             None \<Rightarrow> ((0, Some (SysErr EINVAL)), w1, s1)
           | Some f \<Rightarrow>
               (case fileWrite K f p s1 of
                  (r, s2) \<Rightarrow> (r, w1, s2))))"

text \<open>\<^verbatim>\<open>rotate\<close>: closes the current file, then opens a new one with \<^verbatim>\<open>openNew\<close>.\<close>

definition rotate' ::
  "'w os_impl \<Rightarrow> proc \<Rightarrow> Writer \<Rightarrow> 'w sys \<Rightarrow> go_error option \<times> Writer \<times> 'w sys" where
  "rotate' K P w s =
     (case close K w s of
        (Some err, w1, s1) \<Rightarrow> (Some (Wrap err ''close old file failed.''), w1, s1)
      | (None, w1, s1) \<Rightarrow>
          (case openNew K P w1 s1 of
             (Some err, w2, s2) \<Rightarrow> (Some (Wrap err ''open new file failed.''), w2, s2)
           | (None, w2, s2) \<Rightarrow> (None, w2, s2)))"

definition Rotate ::
  "'w os_impl \<Rightarrow> proc \<Rightarrow> Writer \<Rightarrow> 'w sys \<Rightarrow> go_error option \<times> Writer \<times> 'w sys" where
  "Rotate K P w s = rotate' K P w s"

subsection \<open>Handles held, and sequences of operations\<close>

text \<open>
  The handles the writer holds according to a trace: a successful \<^verbatim>\<open>os.OpenFile\<close> hands
  one over, and a \<^verbatim>\<open>Close\<close> call gives it up whatever it returns (the writer drops its
  reference in either case, and Go's \<^verbatim>\<open>os.File\<close> is unusable after \<^verbatim>\<open>Close\<close>).
\<close>

fun held_step :: "fd list \<Rightarrow> call \<Rightarrow> fd list" where
  "held_step h (CallOpenFile name flag perm (Inr f)) = f # h"
| "held_step h (CallClose f r) = remove1 f h"
| "held_step h c = h"

definition held :: "call list \<Rightarrow> fd list" where
  "held cs = foldl held_step [] cs"

text \<open>At most one handle is held after every call of the trace, starting with \<open>h\<close> held.\<close>

fun one_at_a_time :: "fd list \<Rightarrow> call list \<Rightarrow> bool" where
  "one_at_a_time h [] = (length h \<le> 1)"
| "one_at_a_time h (c # cs) = (length h \<le> 1 \<and> one_at_a_time (held_step h c) cs)"

text \<open>The handles that the successful opens of a list of calls returned.\<close>

fun opened :: "call list \<Rightarrow> fd list" where
  "opened [] = []"
| "opened (CallOpenFile name flag perm (Inr f) # cs) = f # opened cs"
| "opened (c # cs) = opened cs"

text \<open>The calls an operation added to the trace, from the state before and the one after.\<close>

definition new_calls :: "'w sys \<Rightarrow> 'w sys \<Rightarrow> call list" where
  "new_calls s s' = drop (length (trace s)) (trace s')"

definition handles :: "Writer \<Rightarrow> fd list" where
  "handles w = (case file' w of None \<Rightarrow> [] | Some f \<Rightarrow> [f])"

datatype op = OpWrite "byte list" | OpClose | OpRotate

fun step :: "'w os_impl \<Rightarrow> proc \<Rightarrow> Writer \<times> 'w sys \<Rightarrow> op \<Rightarrow> Writer \<times> 'w sys" where
  "step K P (w, s) (OpWrite p) = snd (Write K P w p s)"
| "step K P (w, s) OpClose = snd (Close K w s)"
| "step K P (w, s) OpRotate = snd (Rotate K P w s)"

definition run :: "'w os_impl \<Rightarrow> proc \<Rightarrow> Writer \<times> 'w sys \<Rightarrow> op list \<Rightarrow> Writer \<times> 'w sys" where
  "run K P ws ops = foldl (step K P) ws ops"

text \<open>A writer as its owner constructs it: the file name set, no file open, no call made.\<close>

definition init :: "string \<Rightarrow> 'w \<Rightarrow> Writer \<times> 'w sys" where
  "init name x = (\<lparr>Filename = name, file' = None\<rparr>, \<lparr>world = x, trace = []\<rparr>)"

subsection \<open>A scripted operating system to run the writer on\<close>

text \<open>
  A scripted operating system for fault injection: every call returns what the script
  says. The opens take their results from a list, one for each call, and fail when the
  list is exhausted; a write with no scripted result writes all of its bytes.
\<close>

record script =
  stat_ret :: "go_error option"
  mkdir_ret :: "go_error option"
  open_rets :: "(go_error + fd) list"
  close_ret :: "go_error option"
  write_ret :: "(int \<times> go_error option) option"

definition scripted_os :: "script os_impl" where
  "scripted_os =
     \<lparr>os_Stat = (\<lambda>name m. (stat_ret m, m)),
      os_MkdirAll = (\<lambda>path perm m. (mkdir_ret m, m)),
      os_OpenFile = (\<lambda>name flag perm m.
         case open_rets m of
           [] \<Rightarrow> (Inl (SysErr EIO), m)
         | r # rs \<Rightarrow> (r, m\<lparr>open_rets := rs\<rparr>)),
      file_Close = (\<lambda>f m. (close_ret m, m)),
      file_Write = (\<lambda>f p m.
         case write_ret m of
           None \<Rightarrow> ((int (length p), None), m)
         | Some r \<Rightarrow> (r, m))\<rparr>"

text \<open>
  A call asks for truncation when it is an \<^verbatim>\<open>os.OpenFile\<close> with \<^verbatim>\<open>O_TRUNC\<close> among its
  flags. The writer has no other way to empty a file: it makes no call that removes,
  renames or truncates.
\<close>

fun asks_trunc :: "call \<Rightarrow> bool" where
  "asks_trunc (CallOpenFile name flag perm r) = (O_TRUNC \<in> flag)"
| "asks_trunc c = False"

subsection \<open>Auxiliary notions for the proofs\<close>

text \<open>No call of the list is a \<^verbatim>\<open>Close\<close>.\<close>

fun no_close :: "call list \<Rightarrow> bool" where
  "no_close [] = True"
| "no_close (CallClose f r # cs) = False"
| "no_close (c # cs) = no_close cs"

text \<open>What an open step does, from a writer with no file open.\<close>

definition open_effect :: "Writer \<Rightarrow> 'w sys \<Rightarrow> go_error option \<times> Writer \<times> 'w sys \<Rightarrow> bool" where
  "open_effect w s r =
     (case r of (err, w1, s1) \<Rightarrow>
        Filename w1 = Filename w \<and> (err = None) = (file' w1 \<noteq> None) \<and>
        trace s1 = trace s @ new_calls s s1 \<and> no_close (new_calls s s1) \<and>
        opened (new_calls s s1) = handles w1)"

text \<open>
  The invariant of the writer: the trace never held more than one handle at a time, and the
  handle it holds now is the one in the writer's \<^verbatim>\<open>file\<close> field.
\<close>

definition one_handle :: "Writer \<times> 'w sys \<Rightarrow> bool" where
  "one_handle ws = (one_at_a_time [] (trace (snd ws)) \<and> held (trace (snd ws)) = handles (fst ws))"

subsection \<open>Example inputs\<close>

text \<open>
  A process \<^verbatim>\<open>/usr/local/bin/myapp\<close> with temporary directory \<^verbatim>\<open>/tmp\<close>, a writer
  configured with \<^verbatim>\<open>/var/log/app/out.log\<close>, and a script in which every call succeeds:
  the stat finds the log file, and the opens return the handles 3, 4 and 5.
\<close>

definition example_proc :: proc where
  "example_proc = \<lparr>Args0 = ''/usr/local/bin/myapp'', TempDir = ''/tmp''\<rparr>"

definition out_log :: Writer where
  "out_log = \<lparr>Filename = ''/var/log/app/out.log'', file' = None\<rparr>"

definition healthy :: script where
  "healthy = \<lparr>stat_ret = None, mkdir_ret = None, open_rets = [Inr 3, Inr 4, Inr 5],
     close_ret = None, write_ret = None\<rparr>"

section \<open>Lemmas about the operations\<close>

subsection \<open>Traces and handles\<close>

lemma new_calls_append: "trace s1 = trace s @ cs \<Longrightarrow> new_calls s s1 = cs"
  by (simp add: new_calls_def)

lemma one_at_a_time_append:
  "one_at_a_time h (a @ b) = (one_at_a_time h a \<and> one_at_a_time (foldl held_step h a) b)"
proof (induction a arbitrary: h)
  case Nil
  show ?case by (cases b) auto
next
  case (Cons c a)
  then show ?case by auto
qed

lemma opened_append: "opened (a @ b) = opened a @ opened b"
  by (induction a rule: opened.induct) auto

lemma no_close_append: "no_close (a @ b) = (no_close a \<and> no_close b)"
  by (induction a rule: no_close.induct) auto

lemma held_no_close: "no_close cs \<Longrightarrow> foldl held_step h cs = rev (opened cs) @ h"
proof (induction cs arbitrary: h)
  case Nil
  show ?case by simp
next
  case (Cons c cs)
  then show ?case
  proof (cases c)
    case (CallOpenFile name flag perm r)
    with Cons show ?thesis by (cases r) auto
  qed auto
qed

lemma one_at_a_time_no_close:
  "no_close cs \<Longrightarrow> one_at_a_time h cs = (length h + length (opened cs) \<le> 1)"
proof (induction cs arbitrary: h)
  case Nil
  show ?case by simp
next
  case (Cons c cs)
  then show ?case
  proof (cases c)
    case (CallOpenFile name flag perm r)
    with Cons show ?thesis by (cases r) auto
  qed auto
qed

lemma open_effectI:
  assumes "Filename w1 = Filename w" and "(err = None) = (file' w1 \<noteq> None)"
    and "trace s1 = trace s @ cs" and "no_close cs" and "opened cs = handles w1"
  shows "open_effect w s (err, w1, s1)"
  using assms by (simp add: open_effect_def new_calls_def)

lemma open_effectD:
  assumes "open_effect w s (err, w1, s1)"
  shows "Filename w1 = Filename w" and "(err = None) = (file' w1 \<noteq> None)"
    and "trace s1 = trace s @ new_calls s s1" and "no_close (new_calls s s1)"
    and "opened (new_calls s s1) = handles w1"
  using assms by (simp_all add: open_effect_def)

lemma open_effect_after:
  assumes "open_effect w s1 q" and "trace s1 = trace s @ cs" and "no_close cs" and "opened cs = []"
  shows "open_effect w s q"
proof -
  obtain err w2 s2 where q: "q = (err, w2, s2)" by (cases q)
  note d = open_effectD [OF assms(1) [unfolded q]]
  show ?thesis unfolding q
  proof (rule open_effectI)
    show "trace s2 = trace s @ (cs @ new_calls s1 s2)" using d(3) assms(2) by simp
    show "no_close (cs @ new_calls s1 s2)" using d(4) assms(3) by (simp add: no_close_append)
    show "opened (cs @ new_calls s1 s2) = handles w2" using d(5) assms(4) by (simp add: opened_append)
  qed (use d in simp_all)
qed

lemma openNew_effect:
  assumes "file' w = None"
  shows "open_effect w s (openNew K P w s)"
proof -
  obtain r x where mk: "os_MkdirAll K (dir P w) mode_0744 (world s) = (r, x)"
    by (cases "os_MkdirAll K (dir P w) mode_0744 (world s)")
  obtain ro y where op:
    "os_OpenFile K (filename P w) {O_CREATE, O_WRONLY, O_APPEND} mode_0644 x = (ro, y)"
    by (cases "os_OpenFile K (filename P w) {O_CREATE, O_WRONLY, O_APPEND} mode_0644 x")
  show ?thesis
  proof (cases r)
    case (Some e)
    with mk assms show ?thesis
      by (auto simp: openNew_def osMkdirAll_def handles_def intro!: open_effectI)
  next
    case None
    with mk op assms show ?thesis
      by (cases ro)
         (auto simp: openNew_def osMkdirAll_def osOpenFile_def handles_def Let_def
               intro!: open_effectI)
  qed
qed

lemma openExistingOrNew_effect:
  assumes "file' w = None"
  shows "open_effect w s (openExistingOrNew K P w n s)"
proof -
  obtain r x where st: "os_Stat K (filename P w) (world s) = (r, x)"
    by (cases "os_Stat K (filename P w) (world s)")
  let ?s1 = "\<lparr>world = x, trace = trace s @ [CallStat (filename P w) r]\<rparr>"
  show ?thesis
  proof (cases "IsNotExist r")
    case True
    have "open_effect w s (openNew K P w ?s1)"
      by (rule open_effect_after [where cs = "[CallStat (filename P w) r]", OF openNew_effect [OF assms]])
         simp_all
    with True st show ?thesis
      by (simp add: openExistingOrNew_def osStat_def Let_def)
  next
    case False
    show ?thesis
    proof (cases r)
      case (Some e)
      with False st assms show ?thesis
        by (auto simp: openExistingOrNew_def osStat_def Let_def handles_def intro!: open_effectI)
    next
      case None
      obtain ro y where op: "os_OpenFile K (filename P w) {O_APPEND, O_WRONLY} mode_0644 x = (ro, y)"
        by (cases "os_OpenFile K (filename P w) {O_APPEND, O_WRONLY} mode_0644 x")
      show ?thesis
      proof (cases ro)
        case (Inl e)
        let ?cs = "[CallStat (filename P w) None,
          CallOpenFile (filename P w) {O_APPEND, O_WRONLY} mode_0644 (Inl e)]"
        let ?s2 = "\<lparr>world = y, trace = trace s @ ?cs\<rparr>"
        have "open_effect w s (openNew K P w ?s2)"
          by (rule open_effect_after [where cs = ?cs, OF openNew_effect [OF assms]]) simp_all
        with None st op Inl show ?thesis
          by (simp add: openExistingOrNew_def osStat_def osOpenFile_def Let_def)
      next
        case (Inr f)
        with None st op show ?thesis
          by (auto simp: openExistingOrNew_def osStat_def osOpenFile_def Let_def handles_def
                intro!: open_effectI)
      qed
    qed
  qed
qed

subsection \<open>The single operations\<close>

lemma close_none: "file' w = None \<Longrightarrow> close K w s = (None, w, s)"
  by (simp add: close_def)

lemma close_some:
  "file' w = Some f \<Longrightarrow> file_Close K f (world s) = (r, x) \<Longrightarrow>
   close K w s = (r, w\<lparr>file' := None\<rparr>, \<lparr>world = x, trace = trace s @ [CallClose f r]\<rparr>)"
  by (simp add: close_def fileClose_def)

lemma close_result:
  "close K w s = (err, w1, s1) \<Longrightarrow> file' w1 = None \<and> Filename w1 = Filename w"
  by (auto simp: close_def fileClose_def split: option.splits prod.splits)

lemma Write_some:
  "file' w = Some f \<Longrightarrow> file_Write K f p (world s) = ((n, e), x) \<Longrightarrow>
   Write K P w p s = ((n, e), w, \<lparr>world = x, trace = trace s @ [CallWrite f p n e]\<rparr>)"
  by (simp add: Write_def fileWrite_def)

lemma Write_open_failed:
  "file' w = None \<Longrightarrow> openExistingOrNew K P w (int (length p)) s = (Some err, w1, s1) \<Longrightarrow>
   Write K P w p s = ((0, Some err), w1, s1)"
  by (simp add: Write_def)

lemma Write_opened:
  "file' w = None \<Longrightarrow> openExistingOrNew K P w (int (length p)) s = (None, w1, s1) \<Longrightarrow>
   file' w1 = Some f \<Longrightarrow> file_Write K f p (world s1) = ((n, e), x) \<Longrightarrow>
   Write K P w p s = ((n, e), w1, \<lparr>world = x, trace = trace s1 @ [CallWrite f p n e]\<rparr>)"
  by (simp add: Write_def fileWrite_def)

lemma Write_none_effect:
  assumes "file' w = None" and "Write K P w p s = (r, w', s')"
  shows "Filename w' = Filename w" and "trace s' = trace s @ new_calls s s'"
    and "no_close (new_calls s s')" and "opened (new_calls s s') = handles w'"
    and "(file' w' = None) = (fst (openExistingOrNew K P w (int (length p)) s) \<noteq> None)"
proof -
  obtain err w1 s1 where op: "openExistingOrNew K P w (int (length p)) s = (err, w1, s1)"
    by (cases "openExistingOrNew K P w (int (length p)) s")
  note d = open_effectD [OF openExistingOrNew_effect [OF assms(1), of s K P "int (length p)", unfolded op]]
  have "Filename w' = Filename w \<and> trace s' = trace s @ new_calls s s' \<and>
    no_close (new_calls s s') \<and> opened (new_calls s s') = handles w' \<and>
    (file' w' = None) = (err \<noteq> None)"
  proof (cases err)
    case (Some e)
    with assms op have "w' = w1" "s' = s1" by (simp_all add: Write_open_failed)
    with d Some show ?thesis by simp
  next
    case None
    with d obtain f where f: "file' w1 = Some f" by auto
    obtain n e x where fw: "file_Write K f p (world s1) = ((n, e), x)"
      by (cases "file_Write K f p (world s1)") auto
    from Write_opened [OF assms(1) op [unfolded None] f fw] assms(2)
    have w': "w' = w1" and s': "trace s' = trace s1 @ [CallWrite f p n e]" by auto
    have tr: "trace s' = trace s @ (new_calls s s1 @ [CallWrite f p n e])"
      using s' d(3) by simp
    have nc: "new_calls s s' = new_calls s s1 @ [CallWrite f p n e]"
      using tr by (simp add: new_calls_def)
    show ?thesis using d f None tr
      by (simp add: nc w' no_close_append opened_append)
  qed
  with op show "Filename w' = Filename w" and "trace s' = trace s @ new_calls s s'"
    and "no_close (new_calls s s')" and "opened (new_calls s s') = handles w'"
    and "(file' w' = None) = (fst (openExistingOrNew K P w (int (length p)) s) \<noteq> None)"
    by simp_all
qed

lemma one_handle_extend:
  assumes "one_handle (w, s)" and "file' w = None" and "trace s' = trace s @ cs"
    and "no_close cs" and "opened cs = handles w'"
  shows "one_handle (w', s')"
proof -
  from assms(1,2) have h: "held (trace s) = []" and o: "one_at_a_time [] (trace s)"
    by (simp_all add: one_handle_def handles_def)
  have len: "length (handles w') \<le> 1" and rv: "rev (handles w') = handles w'"
    by (simp_all add: handles_def split: option.splits)
  have "foldl held_step [] (trace s) = []" using h by (simp add: held_def)
  then show ?thesis
    using o len rv assms(3,4,5)
    by (simp add: one_handle_def held_def one_at_a_time_append held_no_close
          one_at_a_time_no_close)
qed

lemma one_handle_close:
  assumes "one_handle (w, s)" and "close K w s = (err, w1, s1)"
  shows "one_handle (w1, s1)"
proof (cases "file' w")
  case None
  with assms show ?thesis by (simp add: close_none)
next
  case (Some f)
  obtain r x where c: "file_Close K f (world s) = (r, x)" by (cases "file_Close K f (world s)")
  from assms(1) Some have h: "foldl held_step [] (trace s) = [f]" and o: "one_at_a_time [] (trace s)"
    by (simp_all add: one_handle_def handles_def held_def)
  from close_some [OF Some c] assms(2) h o show ?thesis
    by (auto simp: one_handle_def held_def handles_def one_at_a_time_append)
qed

lemma one_handle_rotate:
  assumes "one_handle (w, s)" and "rotate' K P w s = (err, w2, s2)"
  shows "one_handle (w2, s2)"
proof -
  obtain e w1 s1 where c: "close K w s = (e, w1, s1)" by (cases "close K w s")
  have i1: "one_handle (w1, s1)" by (rule one_handle_close [OF assms(1) c])
  have n1: "file' w1 = None" using close_result [OF c] by simp
  show ?thesis
  proof (cases e)
    case (Some a)
    with c assms(2) i1 show ?thesis by (simp add: rotate'_def)
  next
    case None
    obtain e2 w3 s3 where on: "openNew K P w1 s1 = (e2, w3, s3)" by (cases "openNew K P w1 s1")
    note d = open_effectD [OF openNew_effect [OF n1, of s1 K P, unfolded on]]
    have "one_handle (w3, s3)"
      by (rule one_handle_extend [OF i1 n1 d(3) d(4) d(5)])
    moreover have "w2 = w3 \<and> s2 = s3"
      using assms(2) c None on by (cases e2) (simp_all add: rotate'_def)
    ultimately show ?thesis by simp
  qed
qed

lemma one_handle_Write:
  assumes "one_handle (w, s)" and "Write K P w p s = (r, w', s')"
  shows "one_handle (w', s')"
proof (cases "file' w")
  case None
  note e = Write_none_effect [OF None assms(2)]
  show ?thesis by (rule one_handle_extend [OF assms(1) None e(2) e(3) e(4)])
next
  case (Some f)
  obtain n e x where fw: "file_Write K f p (world s) = ((n, e), x)"
    by (cases "file_Write K f p (world s)") auto
  from assms(1) Some have h: "foldl held_step [] (trace s) = [f]" and o: "one_at_a_time [] (trace s)"
    by (simp_all add: one_handle_def handles_def held_def)
  from Write_some [OF Some fw] assms(2) h o Some show ?thesis
    by (auto simp: one_handle_def held_def handles_def one_at_a_time_append)
qed

lemma one_handle_step: "one_handle ws \<Longrightarrow> one_handle (step K P ws o')"
proof (cases ws)
  case (Pair w s)
  assume i: "one_handle ws"
  show ?thesis
  proof (cases o')
    case (OpWrite p)
    obtain r w' s' where "Write K P w p s = (r, w', s')" by (cases "Write K P w p s")
    with one_handle_Write [OF i [unfolded Pair] this] Pair OpWrite show ?thesis by simp
  next
    case OpClose
    obtain r w' s' where "close K w s = (r, w', s')" by (cases "close K w s")
    with one_handle_close [OF i [unfolded Pair] this] Pair OpClose show ?thesis
      by (simp add: Close_def)
  next
    case OpRotate
    obtain r w' s' where "rotate' K P w s = (r, w', s')" by (cases "rotate' K P w s")
    with one_handle_rotate [OF i [unfolded Pair] this] Pair OpRotate show ?thesis
      by (simp add: Rotate_def)
  qed
qed

lemma one_handle_run: "one_handle ws \<Longrightarrow> one_handle (run K P ws ops)"
  unfolding run_def by (induction ops arbitrary: ws) (simp_all add: one_handle_step)

lemma one_handle_init: "one_handle (init name x)"
  by (simp add: one_handle_def init_def held_def handles_def)

subsection \<open>Unfolding the definitions on the examples\<close>

lemmas path_defs = filename_def dir_def filepath_Join_def filepath_Base_def filepath_Dir_def
  filepath_Clean_def

lemmas os_call_defs = osStat_def osMkdirAll_def osOpenFile_def fileClose_def fileWrite_def

lemmas writer_defs = Write_def Close_def Rotate_def rotate'_def close_def openNew_def
  openExistingOrNew_def

lemmas example_defs = example_proc_def out_log_def healthy_def scripted_os_def

lemma ex_filename: "filename example_proc out_log = ''/var/log/app/out.log''"
  by (simp add: filename_def out_log_def)

lemma ex_dir: "dir example_proc out_log = ''/var/log/app''"
  by (simp add: dir_def filename_def out_log_def filepath_Dir_def filepath_Clean_def)

subsection \<open>The file name is never assigned\<close>

lemma openNew_Filename: "Filename (fst (snd (openNew K P w s))) = Filename w"
  by (simp add: openNew_def osMkdirAll_def osOpenFile_def Let_def
        split: option.splits prod.splits sum.splits)

lemma openExistingOrNew_Filename:
  "Filename (fst (snd (openExistingOrNew K P w n s))) = Filename w"
  by (simp add: openExistingOrNew_def osStat_def osOpenFile_def Let_def openNew_Filename
        split: option.splits prod.splits sum.splits)

lemma close_Filename: "Filename (fst (snd (close K w s))) = Filename w"
  by (simp add: close_def fileClose_def split: option.splits prod.splits)

lemma rotate_Filename: "Filename (fst (snd (rotate' K P w s))) = Filename w"
proof -
  obtain e w1 s1 where c: "close K w s = (e, w1, s1)" by (cases "close K w s")
  have "Filename w1 = Filename w" using close_Filename [of K w s] c by simp
  moreover have "Filename (fst (snd (openNew K P w1 s1))) = Filename w1"
    by (rule openNew_Filename)
  ultimately show ?thesis using c
    by (auto simp: rotate'_def split: option.splits prod.splits)
qed

lemma Write_Filename: "Filename (fst (snd (Write K P w p s))) = Filename w"
proof (cases "file' w")
  case None
  obtain r w' s' where "Write K P w p s = (r, w', s')" by (cases "Write K P w p s")
  with Write_none_effect(1) [OF None this] show ?thesis by simp
next
  case (Some f)
  obtain n e x where "file_Write K f p (world s) = ((n, e), x)"
    by (cases "file_Write K f p (world s)") auto
  from Write_some [OF Some this] show ?thesis by simp
qed

subsection \<open>Opening, writing and rotating step by step\<close>

lemma openNew_mkdir_failed:
  "os_MkdirAll K (dir P w) mode_0744 (world s) = (Some e, x) \<Longrightarrow>
   openNew K P w s =
     (Some (Wrap e ''can't make directories for new logfile''), w,
      \<lparr>world = x, trace = trace s @ [CallMkdirAll (dir P w) mode_0744 (Some e)]\<rparr>)"
  by (simp add: openNew_def osMkdirAll_def)

lemma openNew_open_failed:
  "os_MkdirAll K (dir P w) mode_0744 (world s) = (None, x) \<Longrightarrow>
   os_OpenFile K (filename P w) {O_CREATE, O_WRONLY, O_APPEND} mode_0644 x = (Inl e, y) \<Longrightarrow>
   openNew K P w s =
     (Some (Wrap e ''can't open new logfile''), w,
      \<lparr>world = y, trace = trace s @
         [CallMkdirAll (dir P w) mode_0744 None,
          CallOpenFile (filename P w) {O_CREATE, O_WRONLY, O_APPEND} mode_0644 (Inl e)]\<rparr>)"
  by (simp add: openNew_def osMkdirAll_def osOpenFile_def)

lemma openNew_opened:
  "os_MkdirAll K (dir P w) mode_0744 (world s) = (None, x) \<Longrightarrow>
   os_OpenFile K (filename P w) {O_CREATE, O_WRONLY, O_APPEND} mode_0644 x = (Inr f, y) \<Longrightarrow>
   openNew K P w s =
     (None, w\<lparr>file' := Some f\<rparr>,
      \<lparr>world = y, trace = trace s @
         [CallMkdirAll (dir P w) mode_0744 None,
          CallOpenFile (filename P w) {O_CREATE, O_WRONLY, O_APPEND} mode_0644 (Inr f)]\<rparr>)"
  by (simp add: openNew_def osMkdirAll_def osOpenFile_def)

lemma close_names: "close K w s = (e, w1, s1) \<Longrightarrow> filename P w1 = filename P w \<and> dir P w1 = dir P w"
  using close_result [of K w s e w1 s1] by (simp add: filename_def dir_def)

lemma rotate_after_close:
  assumes "close K w s = (None, w1, s1)" and "Rotate K P w s = (err, w2, s2)"
  shows "trace s2 = trace s1 @ new_calls s1 s2 \<and>
    ((\<exists>e. new_calls s1 s2 = [CallMkdirAll (dir P w) mode_0744 (Some e)] \<and>
          err = Some (Wrap (Wrap e ''can't make directories for new logfile'')
                   ''open new file failed.'') \<and>
          file' w2 = None) \<or>
     (\<exists>e. new_calls s1 s2 =
            [CallMkdirAll (dir P w) mode_0744 None,
             CallOpenFile (filename P w) {O_CREATE, O_WRONLY, O_APPEND} mode_0644 (Inl e)] \<and>
          err = Some (Wrap (Wrap e ''can't open new logfile'') ''open new file failed.'') \<and>
          file' w2 = None) \<or>
     (\<exists>f. new_calls s1 s2 =
            [CallMkdirAll (dir P w) mode_0744 None,
             CallOpenFile (filename P w) {O_CREATE, O_WRONLY, O_APPEND} mode_0644 (Inr f)] \<and>
          err = None \<and> file' w2 = Some f))"
proof -
  note n = close_names [OF assms(1), of P]
  have f1: "file' w1 = None" using close_result [OF assms(1)] by simp
  have rot: "rotate' K P w s =
    (case openNew K P w1 s1 of
       (Some err, w2, s2) \<Rightarrow> (Some (Wrap err ''open new file failed.''), w2, s2)
     | (None, w2, s2) \<Rightarrow> (None, w2, s2))"
    using assms(1) by (simp add: rotate'_def)
  obtain r x where mk: "os_MkdirAll K (dir P w1) mode_0744 (world s1) = (r, x)"
    by (cases "os_MkdirAll K (dir P w1) mode_0744 (world s1)")
  show ?thesis
  proof (cases r)
    case (Some e)
    from openNew_mkdir_failed [OF mk [unfolded Some]] rot assms(2) n f1 show ?thesis
      by (auto simp: Rotate_def new_calls_def)
  next
    case None
    obtain ro y where op:
      "os_OpenFile K (filename P w1) {O_CREATE, O_WRONLY, O_APPEND} mode_0644 x = (ro, y)"
      by (cases "os_OpenFile K (filename P w1) {O_CREATE, O_WRONLY, O_APPEND} mode_0644 x")
    show ?thesis
    proof (cases ro)
      case (Inl e)
      from openNew_open_failed [OF mk [unfolded None] op [unfolded Inl]] rot assms(2) n f1
      show ?thesis by (auto simp: Rotate_def new_calls_def)
    next
      case (Inr f)
      from openNew_opened [OF mk [unfolded None] op [unfolded Inr]] rot assms(2) n f1
      show ?thesis by (auto simp: Rotate_def new_calls_def)
    qed
  qed
qed

lemma openNew_error:
  "fst (openNew K P w s) = Some err \<Longrightarrow>
   (\<exists>e. err = Wrap e ''can't make directories for new logfile'') \<or>
   (\<exists>e. err = Wrap e ''can't open new logfile'')"
  by (auto simp: openNew_def osMkdirAll_def osOpenFile_def Let_def
           split: option.splits prod.splits sum.splits)

lemma openExistingOrNew_fallback:
  assumes "os_Stat K (filename P w) (world s) = (None, x1)"
    and "os_OpenFile K (filename P w) {O_APPEND, O_WRONLY} mode_0644 x1 = (Inl e, x2)"
  shows "openExistingOrNew K P w n s =
    openNew K P w \<lparr>world = x2, trace = trace s @
      [CallStat (filename P w) None,
       CallOpenFile (filename P w) {O_APPEND, O_WRONLY} mode_0644 (Inl e)]\<rparr>"
  using assms by (simp add: openExistingOrNew_def osStat_def osOpenFile_def Let_def)

lemma Write_open_failed_effect:
  assumes "file' w = None" and "openExistingOrNew K P w n s = (Some err, w1, s1)"
  shows "file' w1 = None" and "opened (new_calls s s1) = []"
  using open_effectD [OF openExistingOrNew_effect [OF assms(1), of s K P n, unfolded assms(2)]]
  by (simp_all add: handles_def)

lemma Write_open_ok_effect:
  assumes "file' w = None" and "openExistingOrNew K P w n s = (None, w1, s1)"
  shows "\<exists>f. file' w1 = Some f \<and> opened (new_calls s s1) = [f]"
  using open_effectD [OF openExistingOrNew_effect [OF assms(1), of s K P n, unfolded assms(2)]]
  by (auto simp: handles_def)

lemma openNew_trace: "\<exists>cs. trace (snd (snd (openNew K P w s))) = trace s @ cs"
  by (auto simp: openNew_def osMkdirAll_def osOpenFile_def Let_def
        split: option.splits prod.splits sum.splits)

lemma openExistingOrNew_first_call:
  "\<exists>cs. trace (snd (snd (openExistingOrNew K P w n s))) =
     trace s @ CallStat (filename P w) (fst (os_Stat K (filename P w) (world s))) # cs"
proof -
  obtain r x where st: "os_Stat K (filename P w) (world s) = (r, x)"
    by (cases "os_Stat K (filename P w) (world s)")
  obtain ro y where op: "os_OpenFile K (filename P w) {O_APPEND, O_WRONLY} mode_0644 x = (ro, y)"
    by (cases "os_OpenFile K (filename P w) {O_APPEND, O_WRONLY} mode_0644 x")
  let ?s1 = "\<lparr>world = x, trace = trace s @ [CallStat (filename P w) r]\<rparr>"
  let ?s2 = "\<lparr>world = y, trace = trace s @ [CallStat (filename P w) r,
     CallOpenFile (filename P w) {O_APPEND, O_WRONLY} mode_0644 ro]\<rparr>"
  from openNew_trace [of K P w ?s1] obtain cs1
    where c1: "trace (snd (snd (openNew K P w ?s1))) = trace s @ CallStat (filename P w) r # cs1"
    by auto
  from openNew_trace [of K P w ?s2] obtain cs2
    where c2: "trace (snd (snd (openNew K P w ?s2))) = trace s @ CallStat (filename P w) r # 
      CallOpenFile (filename P w) {O_APPEND, O_WRONLY} mode_0644 ro # cs2"
    by auto
  show ?thesis
  proof (cases "IsNotExist r")
    case True
    with st c1 show ?thesis by (simp add: openExistingOrNew_def osStat_def Let_def)
  next
    case False
    show ?thesis
    proof (cases r)
      case (Some e)
      with False st show ?thesis by (simp add: openExistingOrNew_def osStat_def Let_def)
    next
      case None
      with st op c2 show ?thesis
        by (cases ro) (simp_all add: openExistingOrNew_def osStat_def osOpenFile_def Let_def)
    qed
  qed
qed

lemma Write_reopens:
  assumes "file' w = None" and "Write K P w p s = (r, w', s')"
  shows "\<exists>cs. new_calls s s' =
    CallStat (filename P w) (fst (os_Stat K (filename P w) (world s))) # cs"
proof -
  obtain err w1 s1 where op: "openExistingOrNew K P w (int (length p)) s = (err, w1, s1)"
    by (cases "openExistingOrNew K P w (int (length p)) s")
  from openExistingOrNew_first_call [of K P w "int (length p)" s] op obtain cs
    where cs: "trace s1 =
      trace s @ CallStat (filename P w) (fst (os_Stat K (filename P w) (world s))) # cs"
    by auto
  have "\<exists>cs'. trace s' = trace s1 @ cs'"
  proof (cases err)
    case (Some e)
    with Write_open_failed [OF assms(1) op [unfolded Some]] assms(2) show ?thesis by simp
  next
    case None
    with Write_open_ok_effect [OF assms(1) op [unfolded None]] obtain f
      where f: "file' w1 = Some f" by auto
    obtain n e x where fw: "file_Write K f p (world s1) = ((n, e), x)"
      by (cases "file_Write K f p (world s1)") auto
    from Write_opened [OF assms(1) op [unfolded None] f fw] assms(2) show ?thesis by auto
  qed
  then obtain cs' where "trace s' = trace s1 @ cs'" by auto
  with cs show ?thesis by (simp add: new_calls_def)
qed

lemma Rotate_ok:
  assumes "Rotate K P w s = (None, w', s')"
  shows "\<exists>f. file' w' = Some f \<and> trace s' \<noteq> [] \<and>
    last (trace s') =
      CallOpenFile (filename P w) {O_CREATE, O_WRONLY, O_APPEND} mode_0644 (Inr f)"
proof -
  obtain e w1 s1 where c: "close K w s = (e, w1, s1)" by (cases "close K w s")
  have "e = None" using assms c by (cases e) (simp_all add: Rotate_def rotate'_def)
  from rotate_after_close [OF c [unfolded this] assms] show ?thesis by auto
qed

section \<open>The claims\<close>

text \<open>
  Claim C1. When the close step of \<^verbatim>\<open>Rotate\<close> succeeds (or no handle was open),
  \<^verbatim>\<open>Rotate\<close> opens the file at the resolved path by the create-new branch only, never by
  the append-reuse branch, and the file it opens is fresh: created or truncated.

  The code does the first and not the second. What the theorem states is what
  \<^verbatim>\<open>Rotate\<close> does after the close step, on any operating system: it runs \<^verbatim>\<open>openNew\<close> and
  nothing else, that is, it makes the directory of the resolved path and, if that succeeds,
  opens the resolved path once with \<^verbatim>\<open>O_CREATE|O_WRONLY|O_APPEND\<close> and mode \<^verbatim>\<open>0644\<close>.
  There is no stat call and no open without \<^verbatim>\<open>O_CREATE\<close>, so the append-reuse branch is
  never attempted. But none of the calls asks for truncation. A log file that is still at the
  resolved path is therefore opened again as it is, for append, although the comments of
  \<^verbatim>\<open>Rotate\<close> (close the existing log file and immediately create a new one),
  \<^verbatim>\<open>rotate\<close> (moves it aside, opens a new file) and \<^verbatim>\<open>openNew\<close> (opens a new log
  file) promise a new file.
\<close>

theorem Rotate_create_new_branch:
  assumes "close K w s = (None, w1, s1)" and "Rotate K P w s = (err, w2, s2)"
  shows "trace s2 = trace s1 @ new_calls s1 s2 \<and>
    ((\<exists>e. new_calls s1 s2 = [CallMkdirAll (dir P w) mode_0744 (Some e)] \<and>
          err = Some (Wrap (Wrap e ''can't make directories for new logfile'')
                   ''open new file failed.'') \<and>
          file' w2 = None) \<or>
     (\<exists>e. new_calls s1 s2 =
            [CallMkdirAll (dir P w) mode_0744 None,
             CallOpenFile (filename P w) {O_CREATE, O_WRONLY, O_APPEND} mode_0644 (Inl e)] \<and>
          err = Some (Wrap (Wrap e ''can't open new logfile'') ''open new file failed.'') \<and>
          file' w2 = None) \<or>
     (\<exists>f. new_calls s1 s2 =
            [CallMkdirAll (dir P w) mode_0744 None,
             CallOpenFile (filename P w) {O_CREATE, O_WRONLY, O_APPEND} mode_0644 (Inr f)] \<and>
          err = None \<and> file' w2 = Some f)) \<and>
    \<not> list_ex asks_trunc (new_calls s1 s2)"
proof -
  note r = rotate_after_close [OF assms]
  from r have "\<not> list_ex asks_trunc (new_calls s1 s2)" by auto
  with r show ?thesis by simp
qed

text \<open>
  On the scripted operating system, the failing input: the log file is there, a \<^verbatim>\<open>Write\<close>
  opens it for append as handle 3 and writes three bytes, and \<^verbatim>\<open>Rotate\<close> follows.
  \<^verbatim>\<open>Rotate\<close> returns nil; it closed handle 3 and opened the same path as handle 4 with
  the create flags, and asked for no truncation, so the three bytes are still in the file
  that handle 4 appends to.
\<close>

theorem Rotate_create_new_branch_witness:
  "run scripted_os example_proc (init ''/var/log/app/out.log'' healthy) [OpWrite [111, 108, 100]] =
     (out_log\<lparr>file' := Some 3\<rparr>,
      \<lparr>world = healthy\<lparr>open_rets := [Inr 4, Inr 5]\<rparr>,
       trace =
        [CallStat ''/var/log/app/out.log'' None,
         CallOpenFile ''/var/log/app/out.log'' {O_APPEND, O_WRONLY} mode_0644 (Inr 3),
         CallWrite 3 [111, 108, 100] 3 None]\<rparr>) \<and>
   close scripted_os (out_log\<lparr>file' := Some 3\<rparr>)
      \<lparr>world = healthy\<lparr>open_rets := [Inr 4, Inr 5]\<rparr>,
       trace =
        [CallStat ''/var/log/app/out.log'' None,
         CallOpenFile ''/var/log/app/out.log'' {O_APPEND, O_WRONLY} mode_0644 (Inr 3),
         CallWrite 3 [111, 108, 100] 3 None]\<rparr> =
     (None, out_log,
      \<lparr>world = healthy\<lparr>open_rets := [Inr 4, Inr 5]\<rparr>,
       trace =
        [CallStat ''/var/log/app/out.log'' None,
         CallOpenFile ''/var/log/app/out.log'' {O_APPEND, O_WRONLY} mode_0644 (Inr 3),
         CallWrite 3 [111, 108, 100] 3 None,
         CallClose 3 None]\<rparr>) \<and>
   Rotate scripted_os example_proc (out_log\<lparr>file' := Some 3\<rparr>)
      \<lparr>world = healthy\<lparr>open_rets := [Inr 4, Inr 5]\<rparr>,
       trace =
        [CallStat ''/var/log/app/out.log'' None,
         CallOpenFile ''/var/log/app/out.log'' {O_APPEND, O_WRONLY} mode_0644 (Inr 3),
         CallWrite 3 [111, 108, 100] 3 None]\<rparr> =
     (None, out_log\<lparr>file' := Some 4\<rparr>,
      \<lparr>world = healthy\<lparr>open_rets := [Inr 5]\<rparr>,
       trace =
        [CallStat ''/var/log/app/out.log'' None,
         CallOpenFile ''/var/log/app/out.log'' {O_APPEND, O_WRONLY} mode_0644 (Inr 3),
         CallWrite 3 [111, 108, 100] 3 None,
         CallClose 3 None,
         CallMkdirAll ''/var/log/app'' mode_0744 None,
         CallOpenFile ''/var/log/app/out.log'' {O_CREATE, O_WRONLY, O_APPEND} mode_0644 (Inr 4)]\<rparr>) \<and>
   new_calls
      \<lparr>world = healthy\<lparr>open_rets := [Inr 4, Inr 5]\<rparr>,
       trace =
        [CallStat ''/var/log/app/out.log'' None,
         CallOpenFile ''/var/log/app/out.log'' {O_APPEND, O_WRONLY} mode_0644 (Inr 3),
         CallWrite 3 [111, 108, 100] 3 None,
         CallClose 3 None]\<rparr>
      \<lparr>world = healthy\<lparr>open_rets := [Inr 5]\<rparr>,
       trace =
        [CallStat ''/var/log/app/out.log'' None,
         CallOpenFile ''/var/log/app/out.log'' {O_APPEND, O_WRONLY} mode_0644 (Inr 3),
         CallWrite 3 [111, 108, 100] 3 None,
         CallClose 3 None,
         CallMkdirAll ''/var/log/app'' mode_0744 None,
         CallOpenFile ''/var/log/app/out.log'' {O_CREATE, O_WRONLY, O_APPEND} mode_0644 (Inr 4)]\<rparr> =
     [CallMkdirAll ''/var/log/app'' mode_0744 None,
      CallOpenFile ''/var/log/app/out.log'' {O_CREATE, O_WRONLY, O_APPEND} mode_0644 (Inr 4)] \<and>
   \<not> list_ex asks_trunc
     [CallStat ''/var/log/app/out.log'' None,
      CallOpenFile ''/var/log/app/out.log'' {O_APPEND, O_WRONLY} mode_0644 (Inr 3),
      CallWrite 3 [111, 108, 100] 3 None,
      CallClose 3 None,
      CallMkdirAll ''/var/log/app'' mode_0744 None,
      CallOpenFile ''/var/log/app/out.log'' {O_CREATE, O_WRONLY, O_APPEND} mode_0644 (Inr 4)]"
  using Rotate_create_new_branch [where K = scripted_os and P = example_proc
      and w = "out_log\<lparr>file' := Some 3\<rparr>"
      and s = "\<lparr>world = healthy\<lparr>open_rets := [Inr 4, Inr 5]\<rparr>,
         trace =
          [CallStat ''/var/log/app/out.log'' None,
           CallOpenFile ''/var/log/app/out.log'' {O_APPEND, O_WRONLY} mode_0644 (Inr 3),
           CallWrite 3 [111, 108, 100] 3 None]\<rparr>"
      and ?w1.0 = out_log
      and ?s1.0 = "\<lparr>world = healthy\<lparr>open_rets := [Inr 4, Inr 5]\<rparr>,
         trace =
          [CallStat ''/var/log/app/out.log'' None,
           CallOpenFile ''/var/log/app/out.log'' {O_APPEND, O_WRONLY} mode_0644 (Inr 3),
           CallWrite 3 [111, 108, 100] 3 None,
           CallClose 3 None]\<rparr>"
      and err = None and ?w2.0 = "out_log\<lparr>file' := Some 4\<rparr>"
      and ?s2.0 = "\<lparr>world = healthy\<lparr>open_rets := [Inr 5]\<rparr>,
         trace =
          [CallStat ''/var/log/app/out.log'' None,
           CallOpenFile ''/var/log/app/out.log'' {O_APPEND, O_WRONLY} mode_0644 (Inr 3),
           CallWrite 3 [111, 108, 100] 3 None,
           CallClose 3 None,
           CallMkdirAll ''/var/log/app'' mode_0744 None,
           CallOpenFile ''/var/log/app/out.log'' {O_CREATE, O_WRONLY, O_APPEND} mode_0644 (Inr 4)]\<rparr>"]
  by (simp add: example_defs writer_defs os_call_defs path_defs new_calls_def Let_def
        run_def init_def)

text \<open>
  Claim C2. When closing the open handle returns an error, \<^verbatim>\<open>Rotate\<close> returns that error
  wrapped with \<^verbatim>\<open>close old file failed.\<close> and does not go on to open a new file: the close
  is the only call it makes, and the writer is left without a handle.
\<close>

theorem Rotate_close_error:
  assumes "file' w = Some f" and "file_Close K f (world s) = (Some e, x)"
  shows "Rotate K P w s =
    (Some (Wrap e ''close old file failed.''), w\<lparr>file' := None\<rparr>,
     \<lparr>world = x, trace = trace s @ [CallClose f (Some e)]\<rparr>)"
  using close_some [OF assms] by (simp add: Rotate_def rotate'_def)

text \<open>On the scripted operating system, with handle 2 open and a close that fails.\<close>

theorem Rotate_close_error_witness:
  "file' (out_log\<lparr>file' := Some 2\<rparr>) = Some 2 \<and>
   file_Close scripted_os 2 (world \<lparr>world = healthy\<lparr>close_ret := Some (SysErr EIO)\<rparr>, trace = []\<rparr>)
     = (Some (SysErr EIO), healthy\<lparr>close_ret := Some (SysErr EIO)\<rparr>) \<and>
   Rotate scripted_os example_proc (out_log\<lparr>file' := Some 2\<rparr>)
       \<lparr>world = healthy\<lparr>close_ret := Some (SysErr EIO)\<rparr>, trace = []\<rparr> =
     (Some (Wrap (SysErr EIO) ''close old file failed.''), out_log,
      \<lparr>world = healthy\<lparr>close_ret := Some (SysErr EIO)\<rparr>,
       trace = [CallClose 2 (Some (SysErr EIO))]\<rparr>)"
  using Rotate_close_error [of "out_log\<lparr>file' := Some 2\<rparr>" 2 scripted_os
      "\<lparr>world = healthy\<lparr>close_ret := Some (SysErr EIO)\<rparr>, trace = []\<rparr>" "SysErr EIO"
      "healthy\<lparr>close_ret := Some (SysErr EIO)\<rparr>" example_proc]
  by (simp add: example_defs)

text \<open>
  Claim C3. A \<^verbatim>\<open>Write\<close> finds no handle open and the stat of the resolved path succeeds (the
  file exists); the append-mode open of the file then fails with some error \<open>e\<close>. The open
  step falls back to the create-new branch: it is \<^verbatim>\<open>openNew\<close>, run after those two calls.
  The error \<open>e\<close> is dropped. If \<^verbatim>\<open>openNew\<close> fails, \<^verbatim>\<open>Write\<close> returns 0 and the
  error of \<^verbatim>\<open>openNew\<close>, which wraps the error of the directory creation or of the creating
  open; if \<^verbatim>\<open>openNew\<close> succeeds, the open step reports no error and \<^verbatim>\<open>Write\<close> goes on
  to write to the new handle (the result of that write is the subject of claim C4).
\<close>

theorem Write_append_open_fallback:
  assumes "file' w = None"
    and "os_Stat K (filename P w) (world s) = (None, x1)"
    and "os_OpenFile K (filename P w) {O_APPEND, O_WRONLY} mode_0644 x1 = (Inl e, x2)"
    and "s2 = \<lparr>world = x2, trace = trace s @
      [CallStat (filename P w) None,
       CallOpenFile (filename P w) {O_APPEND, O_WRONLY} mode_0644 (Inl e)]\<rparr>"
  shows "openExistingOrNew K P w (int (length p)) s = openNew K P w s2 \<and>
    (case openNew K P w s2 of
       (Some err, w1, s1) \<Rightarrow>
         Write K P w p s = ((0, Some err), w1, s1) \<and>
         ((\<exists>e1. err = Wrap e1 ''can't make directories for new logfile'') \<or>
          (\<exists>e1. err = Wrap e1 ''can't open new logfile''))
     | (None, w1, s1) \<Rightarrow>
         (\<exists>f. file' w1 = Some f \<and>
            Write K P w p s = (case fileWrite K f p s1 of (r, s3) \<Rightarrow> (r, w1, s3))))"
proof -
  have fb: "openExistingOrNew K P w (int (length p)) s = openNew K P w s2"
    unfolding assms(4) by (rule openExistingOrNew_fallback [OF assms(2,3)])
  obtain err w1 s1 where on: "openNew K P w s2 = (err, w1, s1)" by (cases "openNew K P w s2")
  note d = open_effectD [OF openNew_effect [OF assms(1), of s2 K P, unfolded on]]
  show ?thesis
  proof (cases err)
    case (Some a)
    with fb on assms(1) openNew_error [of K P w s2 a] show ?thesis
      by (simp add: Write_def)
  next
    case None
    with d obtain f where "file' w1 = Some f" by auto
    with fb on assms(1) None show ?thesis by (simp add: Write_def)
  qed
qed

text \<open>
  On the scripted operating system: the append-open is denied and the creating open
  succeeds, so the two bytes are written; and both opens are denied, so \<^verbatim>\<open>Write\<close> returns
  0 and the error of the creating open.
\<close>

theorem Write_append_open_fallback_witness:
  "file' out_log = None \<and>
   os_Stat scripted_os (filename example_proc out_log)
      (world \<lparr>world = healthy\<lparr>open_rets := [Inl (SysErr EACCES), Inr 3]\<rparr>, trace = []\<rparr>) =
     (None, healthy\<lparr>open_rets := [Inl (SysErr EACCES), Inr 3]\<rparr>) \<and>
   os_OpenFile scripted_os (filename example_proc out_log) {O_APPEND, O_WRONLY} mode_0644
      (healthy\<lparr>open_rets := [Inl (SysErr EACCES), Inr 3]\<rparr>) =
     (Inl (SysErr EACCES), healthy\<lparr>open_rets := [Inr 3]\<rparr>) \<and>
   Write scripted_os example_proc out_log [104, 105]
      \<lparr>world = healthy\<lparr>open_rets := [Inl (SysErr EACCES), Inr 3]\<rparr>, trace = []\<rparr> =
     ((2, None), out_log\<lparr>file' := Some 3\<rparr>,
      \<lparr>world = healthy\<lparr>open_rets := []\<rparr>,
       trace =
        [CallStat ''/var/log/app/out.log'' None,
         CallOpenFile ''/var/log/app/out.log'' {O_APPEND, O_WRONLY} mode_0644 (Inl (SysErr EACCES)),
         CallMkdirAll ''/var/log/app'' mode_0744 None,
         CallOpenFile ''/var/log/app/out.log'' {O_CREATE, O_WRONLY, O_APPEND} mode_0644 (Inr 3),
         CallWrite 3 [104, 105] 2 None]\<rparr>) \<and>
   os_Stat scripted_os (filename example_proc out_log)
      (world \<lparr>world = healthy\<lparr>open_rets := [Inl (SysErr EACCES), Inl (SysErr EACCES)]\<rparr>, trace = []\<rparr>) =
     (None, healthy\<lparr>open_rets := [Inl (SysErr EACCES), Inl (SysErr EACCES)]\<rparr>) \<and>
   os_OpenFile scripted_os (filename example_proc out_log) {O_APPEND, O_WRONLY} mode_0644
      (healthy\<lparr>open_rets := [Inl (SysErr EACCES), Inl (SysErr EACCES)]\<rparr>) =
     (Inl (SysErr EACCES), healthy\<lparr>open_rets := [Inl (SysErr EACCES)]\<rparr>) \<and>
   Write scripted_os example_proc out_log [104, 105]
      \<lparr>world = healthy\<lparr>open_rets := [Inl (SysErr EACCES), Inl (SysErr EACCES)]\<rparr>, trace = []\<rparr> =
     ((0, Some (Wrap (SysErr EACCES) ''can't open new logfile'')), out_log,
      \<lparr>world = healthy\<lparr>open_rets := []\<rparr>,
       trace =
        [CallStat ''/var/log/app/out.log'' None,
         CallOpenFile ''/var/log/app/out.log'' {O_APPEND, O_WRONLY} mode_0644 (Inl (SysErr EACCES)),
         CallMkdirAll ''/var/log/app'' mode_0744 None,
         CallOpenFile ''/var/log/app/out.log'' {O_CREATE, O_WRONLY, O_APPEND} mode_0644
           (Inl (SysErr EACCES))]\<rparr>)"
  using Write_append_open_fallback [of out_log scripted_os example_proc
      "\<lparr>world = healthy\<lparr>open_rets := [Inl (SysErr EACCES), Inr 3]\<rparr>, trace = []\<rparr>"
      "healthy\<lparr>open_rets := [Inl (SysErr EACCES), Inr 3]\<rparr>" "SysErr EACCES"
      "healthy\<lparr>open_rets := [Inr 3]\<rparr>"
      "\<lparr>world = healthy\<lparr>open_rets := [Inr 3]\<rparr>, trace =
        [CallStat ''/var/log/app/out.log'' None,
         CallOpenFile ''/var/log/app/out.log'' {O_APPEND, O_WRONLY} mode_0644 (Inl (SysErr EACCES))]\<rparr>"
      "[104, 105]"]
    Write_append_open_fallback [of out_log scripted_os example_proc
      "\<lparr>world = healthy\<lparr>open_rets := [Inl (SysErr EACCES), Inl (SysErr EACCES)]\<rparr>, trace = []\<rparr>"
      "healthy\<lparr>open_rets := [Inl (SysErr EACCES), Inl (SysErr EACCES)]\<rparr>" "SysErr EACCES"
      "healthy\<lparr>open_rets := [Inl (SysErr EACCES)]\<rparr>"
      "\<lparr>world = healthy\<lparr>open_rets := [Inl (SysErr EACCES)]\<rparr>, trace =
        [CallStat ''/var/log/app/out.log'' None,
         CallOpenFile ''/var/log/app/out.log'' {O_APPEND, O_WRONLY} mode_0644 (Inl (SysErr EACCES))]\<rparr>"
      "[104, 105]"]
  by (simp add: ex_dir ex_filename)
     (simp add: example_defs writer_defs os_call_defs path_defs Let_def)

text \<open>
  Claim C4. When the open step of a \<^verbatim>\<open>Write\<close> fails, for whatever reason, \<^verbatim>\<open>Write\<close>
  returns the count 0 and that error, the writer has no handle, and none of the calls made
  was a successful open. When the open step succeeds, or a handle was open already,
  \<^verbatim>\<open>Write\<close> makes exactly one write call on the handle and returns the count and the error
  of that call as they are.
\<close>

theorem Write_open_step_result:
  "(file' w = None \<and> openExistingOrNew K P w (int (length p)) s = (Some err, w1, s1) \<longrightarrow>
      Write K P w p s = ((0, Some err), w1, s1) \<and> file' w1 = None \<and>
      opened (new_calls s s1) = []) \<and>
   (file' w = None \<and> openExistingOrNew K P w (int (length p)) s = (None, w1, s1) \<longrightarrow>
      (\<exists>f. file' w1 = Some f \<and>
         (case file_Write K f p (world s1) of
            ((n, e), x) \<Rightarrow>
              Write K P w p s =
                ((n, e), w1, \<lparr>world = x, trace = trace s1 @ [CallWrite f p n e]\<rparr>)))) \<and>
   (file' w = Some f \<longrightarrow>
      (case file_Write K f p (world s) of
         ((n, e), x) \<Rightarrow>
           Write K P w p s = ((n, e), w, \<lparr>world = x, trace = trace s @ [CallWrite f p n e]\<rparr>)))"
proof -
  have failed: "Write K P w p s = ((0, Some err), w1, s1) \<and> file' w1 = None \<and>
      opened (new_calls s s1) = []"
    if "file' w = None \<and> openExistingOrNew K P w (int (length p)) s = (Some err, w1, s1)"
    using that Write_open_failed [of w K P p s err w1 s1]
      Write_open_failed_effect [of w K P "int (length p)" s err w1 s1]
    by simp
  have ok: "\<exists>f. file' w1 = Some f \<and>
         (case file_Write K f p (world s1) of
            ((n, e), x) \<Rightarrow>
              Write K P w p s =
                ((n, e), w1, \<lparr>world = x, trace = trace s1 @ [CallWrite f p n e]\<rparr>))"
    if a: "file' w = None \<and> openExistingOrNew K P w (int (length p)) s = (None, w1, s1)"
  proof -
    from a obtain g where g: "file' w1 = Some g"
      using Write_open_ok_effect [of w K P "int (length p)" s w1 s1] by auto
    obtain n e x where fw: "file_Write K g p (world s1) = ((n, e), x)"
      by (cases "file_Write K g p (world s1)") auto
    from a g fw Write_opened [of w K P p s w1 s1 g n e x] show ?thesis by auto
  qed
  have reuse: "case file_Write K f p (world s) of
         ((n, e), x) \<Rightarrow>
           Write K P w p s = ((n, e), w, \<lparr>world = x, trace = trace s @ [CallWrite f p n e]\<rparr>)"
    if a: "file' w = Some f"
  proof -
    obtain n e x where fw: "file_Write K f p (world s) = ((n, e), x)"
      by (cases "file_Write K f p (world s)") auto
    from Write_some [OF a fw] fw show ?thesis by simp
  qed
  from failed ok reuse show ?thesis by blast
qed

text \<open>
  On the scripted operating system: the directory cannot be made; the file is opened and the
  write is short, one byte of two with \<^verbatim>\<open>ENOSPC\<close>; and a write on handle 2, open already.
\<close>

theorem Write_open_step_result_witness:
  "file' out_log = None \<and>
   openExistingOrNew scripted_os example_proc out_log (int (length [104, 105 :: byte]))
      \<lparr>world = healthy\<lparr>stat_ret := Some (SysErr ENOENT), mkdir_ret := Some (SysErr EACCES)\<rparr>,
       trace = []\<rparr> =
     (Some (Wrap (SysErr EACCES) ''can't make directories for new logfile''), out_log,
      \<lparr>world = healthy\<lparr>stat_ret := Some (SysErr ENOENT), mkdir_ret := Some (SysErr EACCES)\<rparr>,
       trace = [CallStat ''/var/log/app/out.log'' (Some (SysErr ENOENT)),
                CallMkdirAll ''/var/log/app'' mode_0744 (Some (SysErr EACCES))]\<rparr>) \<and>
   Write scripted_os example_proc out_log [104, 105]
      \<lparr>world = healthy\<lparr>stat_ret := Some (SysErr ENOENT), mkdir_ret := Some (SysErr EACCES)\<rparr>,
       trace = []\<rparr> =
     ((0, Some (Wrap (SysErr EACCES) ''can't make directories for new logfile'')), out_log,
      \<lparr>world = healthy\<lparr>stat_ret := Some (SysErr ENOENT), mkdir_ret := Some (SysErr EACCES)\<rparr>,
       trace = [CallStat ''/var/log/app/out.log'' (Some (SysErr ENOENT)),
                CallMkdirAll ''/var/log/app'' mode_0744 (Some (SysErr EACCES))]\<rparr>) \<and>
   openExistingOrNew scripted_os example_proc out_log (int (length [104, 105 :: byte]))
      \<lparr>world = healthy\<lparr>write_ret := Some (1, Some (SysErr ENOSPC))\<rparr>, trace = []\<rparr> =
     (None, out_log\<lparr>file' := Some 3\<rparr>,
      \<lparr>world = healthy\<lparr>write_ret := Some (1, Some (SysErr ENOSPC)), open_rets := [Inr 4, Inr 5]\<rparr>,
       trace = [CallStat ''/var/log/app/out.log'' None,
                CallOpenFile ''/var/log/app/out.log'' {O_APPEND, O_WRONLY} mode_0644 (Inr 3)]\<rparr>) \<and>
   Write scripted_os example_proc out_log [104, 105]
      \<lparr>world = healthy\<lparr>write_ret := Some (1, Some (SysErr ENOSPC))\<rparr>, trace = []\<rparr> =
     ((1, Some (SysErr ENOSPC)), out_log\<lparr>file' := Some 3\<rparr>,
      \<lparr>world = healthy\<lparr>write_ret := Some (1, Some (SysErr ENOSPC)), open_rets := [Inr 4, Inr 5]\<rparr>,
       trace = [CallStat ''/var/log/app/out.log'' None,
                CallOpenFile ''/var/log/app/out.log'' {O_APPEND, O_WRONLY} mode_0644 (Inr 3),
                CallWrite 3 [104, 105] 1 (Some (SysErr ENOSPC))]\<rparr>) \<and>
   file' (out_log\<lparr>file' := Some 2\<rparr>) = Some 2 \<and>
   Write scripted_os example_proc (out_log\<lparr>file' := Some 2\<rparr>) [104, 105]
      \<lparr>world = healthy, trace = []\<rparr> =
     ((2, None), out_log\<lparr>file' := Some 2\<rparr>,
      \<lparr>world = healthy, trace = [CallWrite 2 [104, 105] 2 None]\<rparr>)"
  using Write_open_step_result [where K = scripted_os and P = example_proc and w = out_log
      and p = "[104, 105]"
      and s = "\<lparr>world = healthy\<lparr>stat_ret := Some (SysErr ENOENT),
                 mkdir_ret := Some (SysErr EACCES)\<rparr>, trace = []\<rparr>"
      and err = "Wrap (SysErr EACCES) ''can't make directories for new logfile''"
      and ?w1.0 = out_log
      and ?s1.0 = "\<lparr>world = healthy\<lparr>stat_ret := Some (SysErr ENOENT),
                 mkdir_ret := Some (SysErr EACCES)\<rparr>,
         trace = [CallStat ''/var/log/app/out.log'' (Some (SysErr ENOENT)),
                CallMkdirAll ''/var/log/app'' mode_0744 (Some (SysErr EACCES))]\<rparr>"]
    Write_open_step_result [where K = scripted_os and P = example_proc and w = out_log
      and p = "[104, 105]"
      and s = "\<lparr>world = healthy\<lparr>write_ret := Some (1, Some (SysErr ENOSPC))\<rparr>, trace = []\<rparr>"
      and ?w1.0 = "out_log\<lparr>file' := Some 3\<rparr>"
      and ?s1.0 = "\<lparr>world = healthy\<lparr>write_ret := Some (1, Some (SysErr ENOSPC)),
                       open_rets := [Inr 4, Inr 5]\<rparr>,
         trace = [CallStat ''/var/log/app/out.log'' None,
                CallOpenFile ''/var/log/app/out.log'' {O_APPEND, O_WRONLY} mode_0644 (Inr 3)]\<rparr>"]
    Write_open_step_result [where K = scripted_os and P = example_proc
      and w = "out_log\<lparr>file' := Some 2\<rparr>" and f = 2
      and p = "[104, 105]" and s = "\<lparr>world = healthy, trace = []\<rparr>"]
  by (simp add: example_defs writer_defs os_call_defs path_defs Let_def)

text \<open>
  Claim C5. \<^verbatim>\<open>Close\<close> is idempotent: with no handle open it returns nil, makes no call and
  changes nothing; in particular a \<^verbatim>\<open>Close\<close> that follows a \<^verbatim>\<open>Close\<close> returns nil,
  whatever the first one returned.
\<close>

theorem Close_idempotent:
  "(file' w = None \<longrightarrow> Close K w s = (None, w, s)) \<and>
   (Close K w s = (e, w1, s1) \<longrightarrow> Close K w1 s1 = (None, w1, s1))"
  by (auto simp: Close_def close_def fileClose_def split: option.splits prod.splits)

text \<open>A \<^verbatim>\<open>Close\<close> with nothing open, and two in succession with handle 2 open.\<close>

theorem Close_idempotent_witness:
  "file' out_log = None \<and>
   Close scripted_os out_log \<lparr>world = healthy, trace = []\<rparr>
     = (None, out_log, \<lparr>world = healthy, trace = []\<rparr>) \<and>
   Close scripted_os (out_log\<lparr>file' := Some 2\<rparr>) \<lparr>world = healthy, trace = []\<rparr>
     = (None, out_log, \<lparr>world = healthy, trace = [CallClose 2 None]\<rparr>) \<and>
   Close scripted_os out_log \<lparr>world = healthy, trace = [CallClose 2 None]\<rparr>
     = (None, out_log, \<lparr>world = healthy, trace = [CallClose 2 None]\<rparr>)"
  using Close_idempotent [of out_log scripted_os "\<lparr>world = healthy, trace = []\<rparr>"]
    Close_idempotent [of "out_log\<lparr>file' := Some 2\<rparr>" scripted_os
      "\<lparr>world = healthy, trace = []\<rparr>" None out_log
      "\<lparr>world = healthy, trace = [CallClose 2 None]\<rparr>"]
  by (simp add: example_defs Close_def close_def fileClose_def)

text \<open>
  Claim C6. Path resolution: a writer whose \<^verbatim>\<open>Filename\<close> is not empty resolves to that
  \<^verbatim>\<open>Filename\<close> verbatim; a writer whose \<^verbatim>\<open>Filename\<close> is empty resolves to the system
  temporary directory joined with the base name of the running executable followed by the
  fixed suffix \<^verbatim>\<open>-zap.log\<close>.
\<close>

theorem filename_resolution:
  "(Filename w \<noteq> [] \<longrightarrow> filename P w = Filename w) \<and>
   (Filename w = [] \<longrightarrow>
      filename P w = filepath_Join [TempDir P, filepath_Base (Args0 P) @ ''-zap.log''])"
  by (simp add: filename_def)

text \<open>
  On the examples: the configured \<^verbatim>\<open>/var/log/app/out.log\<close> is used as it is, and with no
  file name configured the executable \<^verbatim>\<open>/usr/local/bin/myapp\<close> logs to
  \<^verbatim>\<open>/tmp/myapp-zap.log\<close>.
\<close>

theorem filename_resolution_witness:
  "Filename out_log \<noteq> [] \<and> filename example_proc out_log = ''/var/log/app/out.log'' \<and>
   Filename (out_log\<lparr>Filename := []\<rparr>) = [] \<and>
   filename example_proc (out_log\<lparr>Filename := []\<rparr>) = ''/tmp/myapp-zap.log''"
  using filename_resolution [of out_log example_proc]
    filename_resolution [of "out_log\<lparr>Filename := []\<rparr>" example_proc]
  by (simp add: out_log_def example_proc_def filepath_Join_def filepath_Base_def
        filepath_Clean_def)

text \<open>
  Claim C7, as amended. The writer holds at most one handle at any time: after any sequence
  of operations on a new writer, on any operating system, the trace never held more than one
  handle at once, and the handle held at the end is the one in the writer's \<^verbatim>\<open>file\<close> field.
  Every \<^verbatim>\<open>Close\<close> leaves the handle absent. Every successful \<^verbatim>\<open>Rotate\<close> leaves the handle
  that its last call, the creating open of the resolved path, returned. A \<^verbatim>\<open>Write\<close> from the
  state with no handle opens exactly one handle when its open step succeeds, and none,
  leaving the handle absent, when its open step fails. A \<^verbatim>\<open>Write\<close> with a handle open keeps
  that handle and makes one call, the write on it.
\<close>

theorem one_handle_at_a_time:
  "(case run K P (init name x) ops of
      (w', s') \<Rightarrow> one_at_a_time [] (trace s') \<and> held (trace s') = handles w') \<and>
   file' (fst (snd (Close K w s))) = None \<and>
   (Rotate K P w s = (None, w', s') \<longrightarrow>
      (\<exists>f. file' w' = Some f \<and> trace s' \<noteq> [] \<and>
         last (trace s') =
           CallOpenFile (filename P w) {O_CREATE, O_WRONLY, O_APPEND} mode_0644 (Inr f))) \<and>
   (file' w = None \<and> Write K P w p s = (r, w', s') \<and>
    fst (openExistingOrNew K P w (int (length p)) s) = None \<longrightarrow>
      (\<exists>f. file' w' = Some f \<and> opened (new_calls s s') = [f])) \<and>
   (file' w = None \<and> Write K P w p s = (r, w', s') \<and>
    fst (openExistingOrNew K P w (int (length p)) s) \<noteq> None \<longrightarrow>
      file' w' = None \<and> opened (new_calls s s') = []) \<and>
   (file' w = Some f \<and> Write K P w p s = (r, w', s') \<longrightarrow>
      file' w' = Some f \<and> (\<exists>n e. new_calls s s' = [CallWrite f p n e]))"
proof -
  have inv: "case run K P (init name x) ops of
      (w', s') \<Rightarrow> one_at_a_time [] (trace s') \<and> held (trace s') = handles w'"
    using one_handle_run [OF one_handle_init, of K P name x ops]
    by (auto simp: one_handle_def split: prod.splits)
  have cl: "file' (fst (snd (Close K w s))) = None"
    using close_result [of K w s] by (cases "close K w s") (simp add: Close_def)
  have rot: "\<exists>f. file' w' = Some f \<and> trace s' \<noteq> [] \<and>
         last (trace s') =
           CallOpenFile (filename P w) {O_CREATE, O_WRONLY, O_APPEND} mode_0644 (Inr f)"
    if "Rotate K P w s = (None, w', s')"
    using that by (rule Rotate_ok)
  have wr_ok: "\<exists>f. file' w' = Some f \<and> opened (new_calls s s') = [f]"
    if h: "file' w = None \<and> Write K P w p s = (r, w', s') \<and>
      fst (openExistingOrNew K P w (int (length p)) s) = None"
  proof -
    from h have n: "file' w = None" and wr: "Write K P w p s = (r, w', s')" by simp_all
    from Write_none_effect(4,5) [OF n wr] h show ?thesis by (auto simp: handles_def)
  qed
  have wr_failed: "file' w' = None \<and> opened (new_calls s s') = []"
    if h: "file' w = None \<and> Write K P w p s = (r, w', s') \<and>
      fst (openExistingOrNew K P w (int (length p)) s) \<noteq> None"
  proof -
    from h have n: "file' w = None" and wr: "Write K P w p s = (r, w', s')" by simp_all
    from Write_none_effect(4,5) [OF n wr] h show ?thesis by (auto simp: handles_def)
  qed
  have reuse: "file' w' = Some f \<and> (\<exists>n e. new_calls s s' = [CallWrite f p n e])"
    if h: "file' w = Some f \<and> Write K P w p s = (r, w', s')"
  proof -
    obtain n e y where fw: "file_Write K f p (world s) = ((n, e), y)"
      by (cases "file_Write K f p (world s)") auto
    from h Write_some [of w f K p s n e y P] fw show ?thesis
      by (auto simp: new_calls_def)
  qed
  from inv cl rot wr_ok wr_failed reuse show ?thesis by blast
qed

text \<open>
  On the scripted operating system: a run of four operations, a \<^verbatim>\<open>Rotate\<close> with handle 2
  open, and a \<^verbatim>\<open>Write\<close> from each of the three situations.
\<close>

theorem one_handle_at_a_time_witness:
  "run scripted_os example_proc (init ''/var/log/app/out.log'' healthy)
      [OpWrite [104, 105], OpRotate, OpWrite [33], OpClose] =
     (out_log,
      \<lparr>world = healthy\<lparr>open_rets := [Inr 5]\<rparr>,
       trace =
        [CallStat ''/var/log/app/out.log'' None,
         CallOpenFile ''/var/log/app/out.log'' {O_APPEND, O_WRONLY} mode_0644 (Inr 3),
         CallWrite 3 [104, 105] 2 None,
         CallClose 3 None,
         CallMkdirAll ''/var/log/app'' mode_0744 None,
         CallOpenFile ''/var/log/app/out.log'' {O_CREATE, O_WRONLY, O_APPEND} mode_0644 (Inr 4),
         CallWrite 4 [33] 1 None,
         CallClose 4 None]\<rparr>) \<and>
   one_at_a_time []
     [CallStat ''/var/log/app/out.log'' None,
      CallOpenFile ''/var/log/app/out.log'' {O_APPEND, O_WRONLY} mode_0644 (Inr 3),
      CallWrite 3 [104, 105] 2 None,
      CallClose 3 None,
      CallMkdirAll ''/var/log/app'' mode_0744 None,
      CallOpenFile ''/var/log/app/out.log'' {O_CREATE, O_WRONLY, O_APPEND} mode_0644 (Inr 4),
      CallWrite 4 [33] 1 None,
      CallClose 4 None] \<and>
   held
     [CallStat ''/var/log/app/out.log'' None,
      CallOpenFile ''/var/log/app/out.log'' {O_APPEND, O_WRONLY} mode_0644 (Inr 3),
      CallWrite 3 [104, 105] 2 None,
      CallClose 3 None,
      CallMkdirAll ''/var/log/app'' mode_0744 None,
      CallOpenFile ''/var/log/app/out.log'' {O_CREATE, O_WRONLY, O_APPEND} mode_0644 (Inr 4),
      CallWrite 4 [33] 1 None,
      CallClose 4 None] = handles out_log \<and>
   file' (fst (snd (Close scripted_os (out_log\<lparr>file' := Some 2\<rparr>)
      \<lparr>world = healthy, trace = []\<rparr>))) = None \<and>
   Rotate scripted_os example_proc (out_log\<lparr>file' := Some 2\<rparr>) \<lparr>world = healthy, trace = []\<rparr> =
     (None, out_log\<lparr>file' := Some 3\<rparr>,
      \<lparr>world = healthy\<lparr>open_rets := [Inr 4, Inr 5]\<rparr>,
       trace =
        [CallClose 2 None,
         CallMkdirAll ''/var/log/app'' mode_0744 None,
         CallOpenFile ''/var/log/app/out.log'' {O_CREATE, O_WRONLY, O_APPEND} mode_0644 (Inr 3)]\<rparr>) \<and>
   file' out_log = None \<and>
   fst (openExistingOrNew scripted_os example_proc out_log (int (length [104, 105 :: byte]))
      \<lparr>world = healthy, trace = []\<rparr>) = None \<and>
   Write scripted_os example_proc out_log [104, 105] \<lparr>world = healthy, trace = []\<rparr> =
     ((2, None), out_log\<lparr>file' := Some 3\<rparr>,
      \<lparr>world = healthy\<lparr>open_rets := [Inr 4, Inr 5]\<rparr>,
       trace =
        [CallStat ''/var/log/app/out.log'' None,
         CallOpenFile ''/var/log/app/out.log'' {O_APPEND, O_WRONLY} mode_0644 (Inr 3),
         CallWrite 3 [104, 105] 2 None]\<rparr>) \<and>
   fst (openExistingOrNew scripted_os example_proc out_log (int (length [104, 105 :: byte]))
      \<lparr>world = healthy\<lparr>stat_ret := Some (SysErr ENOENT), mkdir_ret := Some (SysErr EACCES)\<rparr>,
       trace = []\<rparr>) \<noteq> None \<and>
   Write scripted_os example_proc out_log [104, 105]
      \<lparr>world = healthy\<lparr>stat_ret := Some (SysErr ENOENT), mkdir_ret := Some (SysErr EACCES)\<rparr>,
       trace = []\<rparr> =
     ((0, Some (Wrap (SysErr EACCES) ''can't make directories for new logfile'')), out_log,
      \<lparr>world = healthy\<lparr>stat_ret := Some (SysErr ENOENT), mkdir_ret := Some (SysErr EACCES)\<rparr>,
       trace = [CallStat ''/var/log/app/out.log'' (Some (SysErr ENOENT)),
                CallMkdirAll ''/var/log/app'' mode_0744 (Some (SysErr EACCES))]\<rparr>) \<and>
   file' (out_log\<lparr>file' := Some 2\<rparr>) = Some 2 \<and>
   Write scripted_os example_proc (out_log\<lparr>file' := Some 2\<rparr>) [104, 105]
      \<lparr>world = healthy, trace = []\<rparr> =
     ((2, None), out_log\<lparr>file' := Some 2\<rparr>,
      \<lparr>world = healthy, trace = [CallWrite 2 [104, 105] 2 None]\<rparr>)"
  using one_handle_at_a_time [where K = scripted_os and P = example_proc
      and name = "''/var/log/app/out.log''" and x = healthy
      and ops = "[OpWrite [104, 105], OpRotate, OpWrite [33], OpClose]"
      and w = "out_log\<lparr>file' := Some 2\<rparr>" and s = "\<lparr>world = healthy, trace = []\<rparr>"
      and f = 2 and p = "[104, 105]" and r = "(2, None)"
      and w' = "out_log\<lparr>file' := Some 3\<rparr>"
      and s' = "\<lparr>world = healthy\<lparr>open_rets := [Inr 4, Inr 5]\<rparr>,
         trace =
          [CallClose 2 None,
           CallMkdirAll ''/var/log/app'' mode_0744 None,
           CallOpenFile ''/var/log/app/out.log'' {O_CREATE, O_WRONLY, O_APPEND} mode_0644 (Inr 3)]\<rparr>"]
    one_handle_at_a_time [where K = scripted_os and P = example_proc
      and w = "out_log\<lparr>file' := Some 2\<rparr>" and s = "\<lparr>world = healthy, trace = []\<rparr>"
      and f = 2 and p = "[104, 105]" and r = "(2, None)"
      and w' = "out_log\<lparr>file' := Some 2\<rparr>"
      and s' = "\<lparr>world = healthy, trace = [CallWrite 2 [104, 105] 2 None]\<rparr>"]
    one_handle_at_a_time [where K = scripted_os and P = example_proc
      and w = out_log and s = "\<lparr>world = healthy, trace = []\<rparr>"
      and p = "[104, 105]" and r = "(2, None)"
      and w' = "out_log\<lparr>file' := Some 3\<rparr>"
      and s' = "\<lparr>world = healthy\<lparr>open_rets := [Inr 4, Inr 5]\<rparr>,
         trace =
          [CallStat ''/var/log/app/out.log'' None,
           CallOpenFile ''/var/log/app/out.log'' {O_APPEND, O_WRONLY} mode_0644 (Inr 3),
           CallWrite 3 [104, 105] 2 None]\<rparr>"]
    one_handle_at_a_time [where K = scripted_os and P = example_proc
      and w = out_log
      and s = "\<lparr>world = healthy\<lparr>stat_ret := Some (SysErr ENOENT),
                 mkdir_ret := Some (SysErr EACCES)\<rparr>, trace = []\<rparr>"
      and p = "[104, 105]"
      and r = "(0, Some (Wrap (SysErr EACCES) ''can't make directories for new logfile''))"
      and w' = out_log
      and s' = "\<lparr>world = healthy\<lparr>stat_ret := Some (SysErr ENOENT),
                 mkdir_ret := Some (SysErr EACCES)\<rparr>,
         trace = [CallStat ''/var/log/app/out.log'' (Some (SysErr ENOENT)),
                CallMkdirAll ''/var/log/app'' mode_0744 (Some (SysErr EACCES))]\<rparr>"]
  by (simp add: example_defs writer_defs os_call_defs path_defs new_calls_def Let_def
        run_def init_def held_def handles_def)

text \<open>
  The claim as the specification states it, that a \<^verbatim>\<open>Write\<close> from the state with no handle
  opens exactly one handle, fails when the directory of the log file cannot be made: the
  \<^verbatim>\<open>Write\<close> returns 0 and the error, no open succeeded, and the writer has no handle.
\<close>

theorem Write_opens_no_handle_counterexample:
  "file' out_log = None \<and>
   fst (Write scripted_os example_proc out_log [104, 105]
      \<lparr>world = healthy\<lparr>stat_ret := Some (SysErr ENOENT), mkdir_ret := Some (SysErr EACCES)\<rparr>,
       trace = []\<rparr>) =
     (0, Some (Wrap (SysErr EACCES) ''can't make directories for new logfile'')) \<and>
   file' (fst (snd (Write scripted_os example_proc out_log [104, 105]
      \<lparr>world = healthy\<lparr>stat_ret := Some (SysErr ENOENT), mkdir_ret := Some (SysErr EACCES)\<rparr>,
       trace = []\<rparr>))) = None \<and>
   opened (new_calls
      \<lparr>world = healthy\<lparr>stat_ret := Some (SysErr ENOENT), mkdir_ret := Some (SysErr EACCES)\<rparr>,
       trace = []\<rparr>
      (snd (snd (Write scripted_os example_proc out_log [104, 105]
        \<lparr>world = healthy\<lparr>stat_ret := Some (SysErr ENOENT), mkdir_ret := Some (SysErr EACCES)\<rparr>,
         trace = []\<rparr>)))) = []"
  by (simp add: example_defs writer_defs os_call_defs path_defs new_calls_def Let_def)

text \<open>
  Claim C8. When no handle is open and the existence check on the resolved path fails with an
  error other than not-exist, \<^verbatim>\<open>Write\<close> returns 0 and that error wrapped with
  \<^verbatim>\<open>error getting log file info\<close>. The stat is the only call made: no append-open, no
  directory creation and no create-new fallback are attempted, and no handle is opened.
\<close>

theorem Write_stat_error:
  assumes "file' w = None" and "os_Stat K (filename P w) (world s) = (Some e, x)"
    and "\<not> IsNotExist (Some e)"
  shows "Write K P w p s =
    ((0, Some (Wrap e ''error getting log file info'')), w,
     \<lparr>world = x, trace = trace s @ [CallStat (filename P w) (Some e)]\<rparr>)"
  using assms by (simp add: Write_def openExistingOrNew_def osStat_def)

text \<open>On the scripted operating system, with a stat that is denied permission.\<close>

theorem Write_stat_error_witness:
  "file' out_log = None \<and>
   os_Stat scripted_os (filename example_proc out_log)
     (world \<lparr>world = healthy\<lparr>stat_ret := Some (SysErr EACCES)\<rparr>, trace = []\<rparr>)
     = (Some (SysErr EACCES), healthy\<lparr>stat_ret := Some (SysErr EACCES)\<rparr>) \<and>
   \<not> IsNotExist (Some (SysErr EACCES)) \<and>
   Write scripted_os example_proc out_log [104, 105]
       \<lparr>world = healthy\<lparr>stat_ret := Some (SysErr EACCES)\<rparr>, trace = []\<rparr> =
     ((0, Some (Wrap (SysErr EACCES) ''error getting log file info'')), out_log,
      \<lparr>world = healthy\<lparr>stat_ret := Some (SysErr EACCES)\<rparr>,
       trace = [CallStat ''/var/log/app/out.log'' (Some (SysErr EACCES))]\<rparr>)"
  using Write_stat_error [of out_log scripted_os example_proc
      "\<lparr>world = healthy\<lparr>stat_ret := Some (SysErr EACCES)\<rparr>, trace = []\<rparr>" "SysErr EACCES"
      "healthy\<lparr>stat_ret := Some (SysErr EACCES)\<rparr>" "[104, 105]"]
  by (simp add: ex_filename) (simp add: example_defs)

text \<open>
  Claim C9. Every \<^verbatim>\<open>Close\<close> leaves the writer without a handle, also when closing the
  file returns an error. So a \<^verbatim>\<open>Close\<close> that failed cannot be retried: the next
  \<^verbatim>\<open>Close\<close>, in any later state of the world, returns nil and makes no call. And a
  \<^verbatim>\<open>Rotate\<close> whose close step fails leaves no handle either, so that the next \<^verbatim>\<open>Write\<close>
  opens lazily again: its first call is the stat of the resolved path.
\<close>

theorem close_always_drops_handle:
  "file' (fst (snd (Close K w s))) = None \<and>
   (Close K w s = (e, w1, s1) \<longrightarrow> Close K w1 s' = (None, w1, s')) \<and>
   (file' w = Some f \<and> file_Close K f (world s) = (Some e', x) \<and>
    Rotate K P w s = (err, w2, s2) \<longrightarrow>
      file' w2 = None \<and>
      (\<exists>cs. new_calls s2 (snd (snd (Write K P w2 p s2))) =
         CallStat (filename P w) (fst (os_Stat K (filename P w) (world s2))) # cs))"
proof -
  have a: "file' (fst (snd (Close K w s))) = None"
    using close_result [of K w s] by (cases "close K w s") (simp add: Close_def)
  have b: "Close K w1 s' = (None, w1, s')" if "Close K w s = (e, w1, s1)"
    using that close_result [of K w s e w1 s1] by (simp add: Close_def close_none)
  have c: "file' w2 = None \<and>
      (\<exists>cs. new_calls s2 (snd (snd (Write K P w2 p s2))) =
         CallStat (filename P w) (fst (os_Stat K (filename P w) (world s2))) # cs)"
    if h: "file' w = Some f \<and> file_Close K f (world s) = (Some e', x) \<and>
      Rotate K P w s = (err, w2, s2)"
  proof -
    from h close_some [of w f K s "Some e'" x]
    have w2: "w2 = w\<lparr>file' := None\<rparr>" by (simp add: Rotate_def rotate'_def)
    then have n: "file' w2 = None" and fn: "filename P w2 = filename P w"
      by (simp_all add: filename_def)
    obtain r w3 s3 where wr: "Write K P w2 p s2 = (r, w3, s3)" by (cases "Write K P w2 p s2")
    from Write_reopens [OF n wr] n fn wr show ?thesis by simp
  qed
  from a b c show ?thesis by blast
qed

text \<open>On the scripted operating system, with handle 2 open and a close that fails.\<close>

theorem close_always_drops_handle_witness:
  "file' (fst (snd (Close scripted_os (out_log\<lparr>file' := Some 2\<rparr>)
      \<lparr>world = healthy\<lparr>close_ret := Some (SysErr EIO)\<rparr>, trace = []\<rparr>))) = None \<and>
   Close scripted_os (out_log\<lparr>file' := Some 2\<rparr>)
      \<lparr>world = healthy\<lparr>close_ret := Some (SysErr EIO)\<rparr>, trace = []\<rparr> =
     (Some (SysErr EIO), out_log,
      \<lparr>world = healthy\<lparr>close_ret := Some (SysErr EIO)\<rparr>,
       trace = [CallClose 2 (Some (SysErr EIO))]\<rparr>) \<and>
   Close scripted_os out_log
      \<lparr>world = healthy\<lparr>close_ret := Some (SysErr EIO)\<rparr>,
       trace = [CallClose 2 (Some (SysErr EIO))]\<rparr> =
     (None, out_log,
      \<lparr>world = healthy\<lparr>close_ret := Some (SysErr EIO)\<rparr>,
       trace = [CallClose 2 (Some (SysErr EIO))]\<rparr>) \<and>
   file' (out_log\<lparr>file' := Some 2\<rparr>) = Some 2 \<and>
   file_Close scripted_os 2
      (world \<lparr>world = healthy\<lparr>close_ret := Some (SysErr EIO)\<rparr>, trace = []\<rparr>) =
     (Some (SysErr EIO), healthy\<lparr>close_ret := Some (SysErr EIO)\<rparr>) \<and>
   Rotate scripted_os example_proc (out_log\<lparr>file' := Some 2\<rparr>)
      \<lparr>world = healthy\<lparr>close_ret := Some (SysErr EIO)\<rparr>, trace = []\<rparr> =
     (Some (Wrap (SysErr EIO) ''close old file failed.''), out_log,
      \<lparr>world = healthy\<lparr>close_ret := Some (SysErr EIO)\<rparr>,
       trace = [CallClose 2 (Some (SysErr EIO))]\<rparr>) \<and>
   new_calls
      \<lparr>world = healthy\<lparr>close_ret := Some (SysErr EIO)\<rparr>,
       trace = [CallClose 2 (Some (SysErr EIO))]\<rparr>
      (snd (snd (Write scripted_os example_proc out_log [104, 105]
         \<lparr>world = healthy\<lparr>close_ret := Some (SysErr EIO)\<rparr>,
          trace = [CallClose 2 (Some (SysErr EIO))]\<rparr>))) =
     [CallStat ''/var/log/app/out.log'' None,
      CallOpenFile ''/var/log/app/out.log'' {O_APPEND, O_WRONLY} mode_0644 (Inr 3),
      CallWrite 3 [104, 105] 2 None]"
  using close_always_drops_handle [where K = scripted_os and P = example_proc
      and w = "out_log\<lparr>file' := Some 2\<rparr>" and f = 2 and p = "[104, 105]"
      and s = "\<lparr>world = healthy\<lparr>close_ret := Some (SysErr EIO)\<rparr>, trace = []\<rparr>"
      and e = "Some (SysErr EIO)" and e' = "SysErr EIO"
      and x = "healthy\<lparr>close_ret := Some (SysErr EIO)\<rparr>"
      and ?w1.0 = out_log and ?w2.0 = out_log
      and err = "Some (Wrap (SysErr EIO) ''close old file failed.'')"
      and ?s1.0 = "\<lparr>world = healthy\<lparr>close_ret := Some (SysErr EIO)\<rparr>,
         trace = [CallClose 2 (Some (SysErr EIO))]\<rparr>"
      and ?s2.0 = "\<lparr>world = healthy\<lparr>close_ret := Some (SysErr EIO)\<rparr>,
         trace = [CallClose 2 (Some (SysErr EIO))]\<rparr>"
      and s' = "\<lparr>world = healthy\<lparr>close_ret := Some (SysErr EIO)\<rparr>,
         trace = [CallClose 2 (Some (SysErr EIO))]\<rparr>"]
  by (simp add: example_defs writer_defs os_call_defs path_defs new_calls_def Let_def)

text \<open>
  Claim C10. No operation changes the configured target path: after \<^verbatim>\<open>Write\<close>,
  \<^verbatim>\<open>Close\<close> or \<^verbatim>\<open>Rotate\<close>, from any state and on any operating system, the writer's
  \<^verbatim>\<open>Filename\<close> is what it was before the call.
\<close>

theorem Filename_frame:
  "Filename (fst (snd (Write K P w p s))) = Filename w \<and>
   Filename (fst (snd (Close K w s))) = Filename w \<and>
   Filename (fst (snd (Rotate K P w s))) = Filename w"
  by (simp add: Write_Filename close_Filename rotate_Filename Close_def Rotate_def)

end
